theory Spec2Isabelle
  imports Main "HOL-Library.Word"
begin

unbundle bit_operations_syntax

section \<open>Text, bytes and codecs\<close>

text \<open>
  A Python \<^verbatim>\<open>str\<close> is a sequence of Unicode code points and a \<^verbatim>\<open>bytes\<close> object a
  sequence of octets. File names and dictionary keys of the interpreter itself (module
  attribute names, filter names) are kept as HOL strings.
\<close>

type_synonym ustr = "nat list"
type_synonym bytes = "8 word list"

text \<open>ASCII literals as text and as file contents.\<close>

definition ustr_of :: "string \<Rightarrow> ustr" where
  "ustr_of s = map of_char s"

definition bytes_of :: "string \<Rightarrow> bytes" where
  "bytes_of s = map of_char s"

datatype codec = UTF8 | CP1252

datatype os_error = FileNotFoundError | IsADirectoryError | NotADirectoryError | PermissionError

text \<open>
  The exceptions that can leave the program. \<open>OSError\<close> is what \<^verbatim>\<open>except IOError\<close> catches
  in Python 3; \<open>SystemExit\<close> is what a failed \<^verbatim>\<open>parse_args\<close> raises.
\<close>

datatype error =
    OSError os_error string
  | TypeError
  | UnicodeDecodeError codec
  | UnicodeEncodeError codec
  | YAMLError
  | ExtensionError
  | TemplateNotFound string
  | TemplateSyntaxError
  | UndefinedError ustr
  | SystemExit

subsection \<open>UTF-8 (strict error handler)\<close>

definition is_cont :: "8 word \<Rightarrow> bool" where
  "is_cont b = (0x80 \<le> b \<and> b \<le> 0xBF)"

definition cont_bits :: "8 word \<Rightarrow> nat" where
  "cont_bits b = unat b mod 64"

fun utf8_decode :: "bytes \<Rightarrow> ustr option" where
  "utf8_decode [] = Some []"
| "utf8_decode (b # bs) =
     (if b < 0x80 then map_option (Cons (unat b)) (utf8_decode bs)
      else if 0xC2 \<le> b \<and> b \<le> 0xDF then
        (case bs of
           c1 # r \<Rightarrow>
             if is_cont c1
             then map_option (Cons ((unat b mod 32) * 64 + cont_bits c1)) (utf8_decode r)
             else None
         | _ \<Rightarrow> None)
      else if 0xE0 \<le> b \<and> b \<le> 0xEF then
        (case bs of
           c1 # c2 # r \<Rightarrow>
             (let cp = ((unat b mod 16) * 64 + cont_bits c1) * 64 + cont_bits c2
              in if is_cont c1 \<and> is_cont c2 \<and> 0x800 \<le> cp \<and> \<not> (0xD800 \<le> cp \<and> cp \<le> 0xDFFF)
                 then map_option (Cons cp) (utf8_decode r)
                 else None)
         | _ \<Rightarrow> None)
      else if 0xF0 \<le> b \<and> b \<le> 0xF4 then
        (case bs of
           c1 # c2 # c3 # r \<Rightarrow>
             (let cp = (((unat b mod 8) * 64 + cont_bits c1) * 64 + cont_bits c2) * 64 + cont_bits c3
              in if is_cont c1 \<and> is_cont c2 \<and> is_cont c3 \<and> 0x10000 \<le> cp \<and> cp \<le> 0x10FFFF
                 then map_option (Cons cp) (utf8_decode r)
                 else None)
         | _ \<Rightarrow> None)
      else None)"

definition utf8_encode_char :: "nat \<Rightarrow> bytes option" where
  "utf8_encode_char c =
     (if c < 0x80 then Some [of_nat c]
      else if c < 0x800 then Some [of_nat (0xC0 + c div 64), of_nat (0x80 + c mod 64)]
      else if 0xD800 \<le> c \<and> c \<le> 0xDFFF then None
      else if c < 0x10000 then
        Some [of_nat (0xE0 + c div 4096), of_nat (0x80 + (c div 64) mod 64), of_nat (0x80 + c mod 64)]
      else if c \<le> 0x10FFFF then
        Some [of_nat (0xF0 + c div 262144), of_nat (0x80 + (c div 4096) mod 64),
              of_nat (0x80 + (c div 64) mod 64), of_nat (0x80 + c mod 64)]
      else None)"

fun utf8_encode :: "ustr \<Rightarrow> bytes option" where
  "utf8_encode [] = Some []"
| "utf8_encode (c # cs) =
     (case utf8_encode_char c of
        None \<Rightarrow> None
      | Some bs \<Rightarrow> map_option ((@) bs) (utf8_encode cs))"

subsection \<open>Windows-1252 as Python's \<^verbatim>\<open>cp1252\<close> codec defines it\<close>

text \<open>
  Bytes below 0x80 and from 0xA0 on stand for the code point of the same number. The range
  0x80 to 0x9F is the table below; the five bytes missing from it (0x81, 0x8D, 0x8F, 0x90,
  0x9D) decode to nothing, and the code points 0x80 to 0x9F have no byte.
\<close>

definition cp1252_table :: "(nat \<times> 8 word) list" where
  "cp1252_table =
     [(0x20AC, 0x80), (0x201A, 0x82), (0x0192, 0x83), (0x201E, 0x84), (0x2026, 0x85),
      (0x2020, 0x86), (0x2021, 0x87), (0x02C6, 0x88), (0x2030, 0x89), (0x0160, 0x8A),
      (0x2039, 0x8B), (0x0152, 0x8C), (0x017D, 0x8E), (0x2018, 0x91), (0x2019, 0x92),
      (0x201C, 0x93), (0x201D, 0x94), (0x2022, 0x95), (0x2013, 0x96), (0x2014, 0x97),
      (0x02DC, 0x98), (0x2122, 0x99), (0x0161, 0x9A), (0x203A, 0x9B), (0x0153, 0x9C),
      (0x017E, 0x9E), (0x0178, 0x9F)]"

definition cp1252_encode_char :: "nat \<Rightarrow> 8 word option" where
  "cp1252_encode_char c =
     (if c < 0x80 then Some (of_nat c)
      else if 0xA0 \<le> c \<and> c \<le> 0xFF then Some (of_nat c)
      else map_of cp1252_table c)"

definition cp1252_decode_byte :: "8 word \<Rightarrow> nat option" where
  "cp1252_decode_byte b =
     (if b < 0x80 \<or> 0xA0 \<le> b then Some (unat b)
      else map_of (map (\<lambda>(c, b'). (b', c)) cp1252_table) b)"

fun cp1252_encode :: "ustr \<Rightarrow> bytes option" where
  "cp1252_encode [] = Some []"
| "cp1252_encode (c # cs) =
     (case cp1252_encode_char c of
        None \<Rightarrow> None
      | Some b \<Rightarrow> map_option (Cons b) (cp1252_encode cs))"

fun cp1252_decode :: "bytes \<Rightarrow> ustr option" where
  "cp1252_decode [] = Some []"
| "cp1252_decode (b # bs) =
     (case cp1252_decode_byte b of
        None \<Rightarrow> None
      | Some c \<Rightarrow> map_option (Cons c) (cp1252_decode bs))"

text \<open>\<^verbatim>\<open>str.encode(enc)\<close> and \<^verbatim>\<open>bytes.decode(enc)\<close>.\<close>

definition encode :: "codec \<Rightarrow> ustr \<Rightarrow> error + bytes" where
  "encode enc s =
     (case (case enc of UTF8 \<Rightarrow> utf8_encode s | CP1252 \<Rightarrow> cp1252_encode s) of
        None \<Rightarrow> Inl (UnicodeEncodeError enc)
      | Some bs \<Rightarrow> Inr bs)"

definition decode :: "codec \<Rightarrow> bytes \<Rightarrow> error + ustr" where
  "decode enc bs =
     (case (case enc of UTF8 \<Rightarrow> utf8_decode bs | CP1252 \<Rightarrow> cp1252_decode bs) of
        None \<Rightarrow> Inl (UnicodeDecodeError enc)
      | Some s \<Rightarrow> Inr s)"

section \<open>The interpreter's surroundings\<close>

subsection \<open>Parsed data and Python objects\<close>

text \<open>
  What \<^verbatim>\<open>yaml.load\<close> hands back: the tree of section 3 of the specification, scalars,
  sequences and mappings with string keys (floating-point numbers are left out). A mapping
  is kept as the list of its pairs; the first pair with a given key is the binding.
\<close>

datatype pyval =
    VNull
  | VBool bool
  | VInt int
  | VStr ustr
  | VList "pyval list"
  | VMap "(ustr \<times> pyval) list"

text \<open>
  The attributes a module can hold, as far as \<^verbatim>\<open>inspect.isfunction\<close> tells them apart: a
  function written in Python (a \<^verbatim>\<open>def\<close> or a \<^verbatim>\<open>lambda\<close>) with its \<^verbatim>\<open>__name__\<close> and
  the \<^verbatim>\<open>__module__\<close> it was defined in, a class, a builtin or other callable object, and
  plain data.
\<close>

datatype pyobj =
    PyFunction (fn_name: string) (fn_module: string)
  | PyClass string
  | PyCallable string
  | PyData "pyval"

fun isfunction :: "pyobj \<Rightarrow> bool" where
  "isfunction (PyFunction n m) = True"
| "isfunction (PyClass n) = False"
| "isfunction (PyCallable n) = False"
| "isfunction (PyData v) = False"

subsection \<open>Command line\<close>

text \<open>The namespace \<^verbatim>\<open>parser.parse_args(argv)\<close> returns, one field per \<^verbatim>\<open>add_argument\<close>.\<close>

record args =
  filters :: "string list"
  tests :: "string list"
  customize :: "string option"
  undefined_flag :: bool
  output_file :: "string option"
  template :: string
  data :: "string option"

subsection \<open>Template engine objects\<close>

datatype undefined_policy = Undefined | StrictUndefined

record FilePathLoader =
  cwd :: string
  loader_encoding :: codec

text \<open>
  The keyword dictionary \<^verbatim>\<open>j2_env_params\<close>. Only the four keys the renderer sets are
  tracked; \<open>None\<close> is an absent key.
\<close>

record env_params =
  p_keep_trailing_newline :: "bool option"
  p_undefined :: "undefined_policy option"
  p_extensions :: "string list option"
  p_loader :: "FilePathLoader option"

definition no_params :: env_params where
  "no_params = \<lparr>p_keep_trailing_newline = None, p_undefined = None,
                 p_extensions = None, p_loader = None\<rparr>"

text \<open>\<^verbatim>\<open>jinja2.Environment\<close>: its configuration and its two registries.\<close>

record environment =
  keep_trailing_newline :: bool
  undefined_cls :: undefined_policy
  extensions :: "string list"
  loader :: "FilePathLoader option"
  env_filters :: "string \<rightharpoonup> pyobj"
  env_tests :: "string \<rightharpoonup> pyobj"

record Jinja2TemplateRenderer =
  encoding :: codec
  env :: environment

subsection \<open>Files and process state\<close>

text \<open>
  The file system as far as \<^verbatim>\<open>open\<close> can tell: under an absolute path there is a regular
  file with its contents, a directory, a file the process has no permission to open, or
  nothing. Paths are taken in normal form (no \<^verbatim>\<open>.\<close> or \<^verbatim>\<open>..\<close> components, no doubled or
  trailing slash), the root directory always exists, and every entry lies in the root or
  in a directory that has an entry of its own.
\<close>

datatype fnode = Regular bytes | Directory | Denied

text \<open>
  The I/O calls of one run in the order they are made, labelled by the call site: the
  \<^verbatim>\<open>open\<close> of the data file, each \<^verbatim>\<open>imp.load_source\<close>, the \<^verbatim>\<open>open\<close> inside the template
  loader, the \<^verbatim>\<open>open\<close> of the output file. An attempt is recorded whether or not it
  succeeds. The record is bookkeeping for statements about the order of these calls; the
  program never reads it.
\<close>

datatype event =
    OpenData string
  | LoadSource string
  | OpenTemplate string
  | OpenOutput string

text \<open>
  What persists between calls inside one Python process: the files (keyed by absolute
  path), the dictionary object that is the default value of \<^verbatim>\<open>j2_env_params\<close> (created
  once, when the \<^verbatim>\<open>def\<close> is executed, and shared by all calls that do not pass their own),
  the table \<^verbatim>\<open>sys.modules\<close> with each module's attributes, and the I/O calls made so far.
\<close>

record pystate =
  files :: "string \<rightharpoonup> fnode"
  default_env_params :: env_params
  sys_modules :: "string \<rightharpoonup> (string \<rightharpoonup> pyobj)"
  trace :: "event list"

datatype newline_style = LF | CRLF

text \<open>
  What the program takes from outside itself: the working directory of the process, the
  encoding \<^verbatim>\<open>open\<close> uses when none is passed (\<^verbatim>\<open>locale.getpreferredencoding(False)\<close>),
  \<^verbatim>\<open>os.linesep\<close> (\<^verbatim>\<open>\n\<close> or \<^verbatim>\<open>\r\n\<close>), \<^verbatim>\<open>argparse\<close> (with \<open>None\<close> for the \<^verbatim>\<open>SystemExit\<close> of a rejected command
  line), the YAML parser, the attributes that executing a Python source text binds at
  top level (taken as a function of the text), the registries a new \<^verbatim>\<open>Environment\<close>
  starts with, and the template engine: compiling a source text in an environment and
  rendering it against a context.
\<close>

record world =
  proc_cwd :: string
  preferred_encoding :: codec
  linesep :: newline_style
  parse_args :: "string list \<Rightarrow> args option"
  yaml_load :: "ustr \<Rightarrow> error + pyval"
  exec_source :: "bytes \<Rightarrow> error + (string \<rightharpoonup> pyobj)"
  default_filters :: "string \<rightharpoonup> pyobj"
  default_tests :: "string \<rightharpoonup> pyobj"
  template_engine :: "environment \<Rightarrow> ustr \<Rightarrow> pyval \<Rightarrow> error + ustr"

definition log :: "event \<Rightarrow> pystate \<Rightarrow> pystate" where
  "log ev st = st\<lparr>trace := trace st @ [ev]\<rparr>"

text \<open>\<^verbatim>\<open>os.path.join(a, b)\<close> of \<^verbatim>\<open>posixpath\<close>.\<close>

definition os_path_join :: "string \<Rightarrow> string \<Rightarrow> string" where
  "os_path_join a b =
     (if b \<noteq> [] \<and> hd b = CHR ''/'' then b
      else if a = [] \<or> last a = CHR ''/'' then a @ b
      else a @ ''/'' @ b)"

text \<open>The operating system resolves a relative path against the working directory of the process.\<close>

definition abspath :: "world \<Rightarrow> string \<Rightarrow> string" where
  "abspath w p = os_path_join (proc_cwd w) p"

text \<open>Text mode with \<^verbatim>\<open>newline=None\<close>: \<^verbatim>\<open>\r\n\<close> and \<^verbatim>\<open>\r\<close> are read as \<^verbatim>\<open>\n\<close>.\<close>

fun universal_newlines :: "ustr \<Rightarrow> ustr" where
  "universal_newlines [] = []"
| "universal_newlines [c] = [if c = 13 then 10 else c]"
| "universal_newlines (c # d # cs) =
     (if c = 13 \<and> d = 10 then 10 # universal_newlines cs
      else if c = 13 then 10 # universal_newlines (d # cs)
      else c # universal_newlines (d # cs))"

text \<open>On writing, \<^verbatim>\<open>\n\<close> becomes \<^verbatim>\<open>os.linesep\<close>.\<close>

fun write_newlines :: "newline_style \<Rightarrow> ustr \<Rightarrow> ustr" where
  "write_newlines sep [] = []"
| "write_newlines sep (c # cs) =
     (if c = 10 then (case sep of LF \<Rightarrow> [10] | CRLF \<Rightarrow> [13, 10]) else [c]) @ write_newlines sep cs"

text \<open>
  \<^verbatim>\<open>open(p, 'rt', encoding=enc)\<close> followed by reading the whole file. With no \<^verbatim>\<open>encoding\<close>
  argument (\<open>None\<close>) the platform's preferred encoding is used.
\<close>

definition open_read_text :: "world \<Rightarrow> string \<Rightarrow> codec option \<Rightarrow> pystate \<Rightarrow> error + ustr" where
  "open_read_text w p enc st =
     (case files st (abspath w p) of
        None \<Rightarrow> Inl (OSError FileNotFoundError p)
      | Some Directory \<Rightarrow> Inl (OSError IsADirectoryError p)
      | Some Denied \<Rightarrow> Inl (OSError PermissionError p)
      | Some (Regular bs) \<Rightarrow>
          (case decode (case enc of None \<Rightarrow> preferred_encoding w | Some e \<Rightarrow> e) bs of
             Inl e \<Rightarrow> Inl e
           | Inr s \<Rightarrow> Inr (universal_newlines s)))"

text \<open>\<^verbatim>\<open>os.path.dirname\<close> of an absolute path in normal form.\<close>

definition parent_dir :: "string \<Rightarrow> string" where
  "parent_dir p =
     (let d = rev (dropWhile (\<lambda>c. c \<noteq> CHR ''/'') (rev p))
      in if d = ''/'' then d else butlast d)"

text \<open>
  \<^verbatim>\<open>open(p, 'wt', ...)\<close>: an existing regular file is emptied; a file that does not exist is
  created if its directory exists, and otherwise the call fails with \<^verbatim>\<open>FileNotFoundError\<close>
  (no such directory) or \<^verbatim>\<open>NotADirectoryError\<close> (the place of the directory is taken by a
  file).
\<close>

definition open_write :: "world \<Rightarrow> string \<Rightarrow> pystate \<Rightarrow> (error + unit) \<times> pystate" where
  "open_write w p st =
     (case files st (abspath w p) of
        Some Directory \<Rightarrow> (Inl (OSError IsADirectoryError p), st)
      | Some Denied \<Rightarrow> (Inl (OSError PermissionError p), st)
      | Some (Regular old) \<Rightarrow> (Inr (), st\<lparr>files := (files st)(abspath w p \<mapsto> Regular [])\<rparr>)
      | None \<Rightarrow>
          (if parent_dir (abspath w p) = ''/''
           then (Inr (), st\<lparr>files := (files st)(abspath w p \<mapsto> Regular [])\<rparr>)
           else
             (case files st (parent_dir (abspath w p)) of
                None \<Rightarrow> (Inl (OSError FileNotFoundError p), st)
              | Some Directory \<Rightarrow> (Inr (), st\<lparr>files := (files st)(abspath w p \<mapsto> Regular [])\<rparr>)
              | Some other \<Rightarrow> (Inl (OSError NotADirectoryError p), st))))"

text \<open>\<^verbatim>\<open>f.write(s)\<close> on a text file with the given encoding, then closing it.\<close>

definition write_text :: "world \<Rightarrow> string \<Rightarrow> codec \<Rightarrow> ustr \<Rightarrow> pystate \<Rightarrow> (error + unit) \<times> pystate" where
  "write_text w p enc s st =
     (case encode enc (write_newlines (linesep w) s) of
        Inl e \<Rightarrow> (Inl e, st)
      | Inr bs \<Rightarrow> (Inr (), st\<lparr>files := (files st)(abspath w p \<mapsto> Regular bs)\<rparr>))"

section \<open>The program: \<^verbatim>\<open>j2cli/cli.py\<close>\<close>

subsection \<open>\<^verbatim>\<open>FilePathLoader\<close>\<close>

definition FilePathLoader_init :: "string \<Rightarrow> codec \<Rightarrow> FilePathLoader" where
  "FilePathLoader_init c enc = \<lparr>cwd = c, loader_encoding = enc\<rparr>"

text \<open>
  \<^verbatim>\<open>get_source\<close> joins the loader's directory and the template name into \<^verbatim>\<open>filename\<close>,
  opens \<^verbatim>\<open>template\<close>, turns an \<^verbatim>\<open>IOError\<close> into \<^verbatim>\<open>TemplateNotFound\<close> and lets any other
  exception pass. The third component of the result is what the \<^verbatim>\<open>uptodate\<close> callable
  answers.
\<close>

definition get_source ::
  "world \<Rightarrow> FilePathLoader \<Rightarrow> string \<Rightarrow> pystate \<Rightarrow> (error + ustr \<times> string \<times> bool) \<times> pystate" where
  "get_source w self tname st =
     (let filename = os_path_join (cwd self) tname;
          st' = log (OpenTemplate tname) st
      in case open_read_text w tname (Some (loader_encoding self)) st' of
           Inl (OSError e p) \<Rightarrow> (Inl (TemplateNotFound tname), st')
         | Inl e \<Rightarrow> (Inl e, st')
         | Inr contents \<Rightarrow> (Inr (contents, filename, False), st'))"

subsection \<open>\<^verbatim>\<open>Jinja2TemplateRenderer\<close>\<close>

definition ENABLED_EXTENSIONS :: "string list" where
  "ENABLED_EXTENSIONS = [''jinja2.ext.i18n'', ''jinja2.ext.do'', ''jinja2.ext.loopcontrols'']"

text \<open>\<^verbatim>\<open>d.setdefault(k, v)\<close> on one key: a key that is present keeps its value.\<close>

definition setdefault :: "'a option \<Rightarrow> 'a \<Rightarrow> 'a option" where
  "setdefault cur v = (case cur of None \<Rightarrow> Some v | Some x \<Rightarrow> Some x)"

text \<open>
  \<^verbatim>\<open>jinja2.Environment(**params)\<close>: a key that is absent gets the engine's own default (no
  loader, the permissive \<^verbatim>\<open>Undefined\<close>, the trailing newline dropped, no extension).
\<close>

definition Environment :: "world \<Rightarrow> env_params \<Rightarrow> environment" where
  "Environment w ps =
     \<lparr>keep_trailing_newline = (case p_keep_trailing_newline ps of None \<Rightarrow> False | Some b \<Rightarrow> b),
      undefined_cls = (case p_undefined ps of None \<Rightarrow> Undefined | Some c \<Rightarrow> c),
      extensions = (case p_extensions ps of None \<Rightarrow> [] | Some es \<Rightarrow> es),
      loader = p_loader ps,
      env_filters = default_filters w,
      env_tests = default_tests w\<rparr>"

text \<open>
  \<^verbatim>\<open>__init__(self, cwd, allow_undefined, encoding, j2_env_params)\<close>. The dictionary is
  updated in place, so the caller's dictionary after the call is part of the result.
\<close>

definition Jinja2TemplateRenderer_init ::
  "world \<Rightarrow> string \<Rightarrow> bool \<Rightarrow> codec \<Rightarrow> env_params \<Rightarrow> Jinja2TemplateRenderer \<times> env_params" where
  "Jinja2TemplateRenderer_init w c allow_undefined enc j2_env_params =
     (let ps = j2_env_params
            \<lparr>p_keep_trailing_newline := setdefault (p_keep_trailing_newline j2_env_params) True,
             p_undefined := setdefault (p_undefined j2_env_params)
                              (if allow_undefined then Undefined else StrictUndefined),
             p_extensions := setdefault (p_extensions j2_env_params) ENABLED_EXTENSIONS,
             p_loader := setdefault (p_loader j2_env_params) (FilePathLoader_init c UTF8)\<rparr>
      in (\<lparr>encoding = enc, env = Environment w ps\<rparr>, ps))"

text \<open>\<^verbatim>\<open>self._env.filters.update(filters)\<close>: on a name collision the new entry wins.\<close>

definition register_filters ::
  "Jinja2TemplateRenderer \<Rightarrow> (string \<rightharpoonup> pyobj) \<Rightarrow> Jinja2TemplateRenderer" where
  "register_filters self fs = self\<lparr>env := (env self)\<lparr>env_filters := env_filters (env self) ++ fs\<rparr>\<rparr>"

definition register_tests ::
  "Jinja2TemplateRenderer \<Rightarrow> (string \<rightharpoonup> pyobj) \<Rightarrow> Jinja2TemplateRenderer" where
  "register_tests self ts = self\<lparr>env := (env self)\<lparr>env_tests := env_tests (env self) ++ ts\<rparr>\<rparr>"

text \<open>
  \<^verbatim>\<open>imp.load_source(name, pathname)\<close> reads the file and executes it as the module \<open>name\<close>.
  When \<^verbatim>\<open>sys.modules\<close> already has a module of that name, the code runs inside that
  module, whose earlier attributes stay unless rebound. The result is the module, that is
  its attributes.
\<close>

definition imp_load_source ::
  "world \<Rightarrow> string \<Rightarrow> string \<Rightarrow> pystate \<Rightarrow> (error + (string \<rightharpoonup> pyobj)) \<times> pystate" where
  "imp_load_source w name pathname st =
     (let st1 = log (LoadSource pathname) st
      in case files st1 (abspath w pathname) of
           None \<Rightarrow> (Inl (OSError FileNotFoundError pathname), st1)
         | Some Directory \<Rightarrow> (Inl (OSError IsADirectoryError pathname), st1)
         | Some Denied \<Rightarrow> (Inl (OSError PermissionError pathname), st1)
         | Some (Regular src) \<Rightarrow>
             (case exec_source w src of
                Inl e \<Rightarrow> (Inl e, st1)
              | Inr bound \<Rightarrow>
                  (let m = (case sys_modules st1 name of None \<Rightarrow> Map.empty | Some old \<Rightarrow> old) ++ bound
                   in (Inr m, st1\<lparr>sys_modules := (sys_modules st1)(name \<mapsto> m)\<rparr>))))"

text \<open>
  \<^verbatim>\<open>dict((name, func) for name, func in inspect.getmembers(m) if inspect.isfunction(func))\<close>:
  the attributes of the module that are Python functions, under their attribute names.
\<close>

definition function_members :: "(string \<rightharpoonup> pyobj) \<Rightarrow> (string \<rightharpoonup> pyobj)" where
  "function_members m =
     (\<lambda>name. case m name of
                None \<Rightarrow> None
              | Some func \<Rightarrow> if isfunction func then Some func else None)"

definition import_functions ::
  "world \<Rightarrow> string \<Rightarrow> pystate \<Rightarrow> (error + (string \<rightharpoonup> pyobj)) \<times> pystate" where
  "import_functions w filename st =
     (case imp_load_source w ''imported-funcs'' filename st of
        (Inl e, st') \<Rightarrow> (Inl e, st')
      | (Inr m, st') \<Rightarrow> (Inr (function_members m), st'))"

definition import_filters ::
  "world \<Rightarrow> Jinja2TemplateRenderer \<Rightarrow> string \<Rightarrow> pystate \<Rightarrow> (error + Jinja2TemplateRenderer) \<times> pystate" where
  "import_filters w self filename st =
     (case import_functions w filename st of
        (Inl e, st') \<Rightarrow> (Inl e, st')
      | (Inr fs, st') \<Rightarrow> (Inr (register_filters self fs), st'))"

definition import_tests ::
  "world \<Rightarrow> Jinja2TemplateRenderer \<Rightarrow> string \<Rightarrow> pystate \<Rightarrow> (error + Jinja2TemplateRenderer) \<times> pystate" where
  "import_tests w self filename st =
     (case import_functions w filename st of
        (Inl e, st') \<Rightarrow> (Inl e, st')
      | (Inr ts, st') \<Rightarrow> (Inr (register_tests self ts), st'))"

text \<open>
  \<^verbatim>\<open>self._env.get_template(template_path).render(context).encode(self.encoding)\<close>. The
  environment asks its loader for the source (an environment without loader raises
  \<^verbatim>\<open>TypeError\<close>), the engine compiles and renders it, and the text is encoded.
\<close>

definition get_template ::
  "world \<Rightarrow> environment \<Rightarrow> string \<Rightarrow> pystate \<Rightarrow> (error + ustr) \<times> pystate" where
  "get_template w e template_path st =
     (case loader e of
        None \<Rightarrow> (Inl TypeError, st)
      | Some l \<Rightarrow>
          (case get_source w l template_path st of
             (Inl err, st') \<Rightarrow> (Inl err, st')
           | (Inr (contents, filename, uptodate), st') \<Rightarrow> (Inr contents, st')))"

definition render ::
  "world \<Rightarrow> Jinja2TemplateRenderer \<Rightarrow> string \<Rightarrow> pyval \<Rightarrow> pystate \<Rightarrow> (error + bytes) \<times> pystate" where
  "render w self template_path context st =
     (case get_template w (env self) template_path st of
        (Inl e, st') \<Rightarrow> (Inl e, st')
      | (Inr source, st') \<Rightarrow>
          (case template_engine w (env self) source context of
             Inl e \<Rightarrow> (Inl e, st')
           | Inr text \<Rightarrow> (encode (encoding self) text, st')))"

subsection \<open>\<^verbatim>\<open>render_command\<close>\<close>

text \<open>
  Lines 131 and 132: \<^verbatim>\<open>open(args.data)\<close>, with no encoding argument, and \<^verbatim>\<open>yaml.load\<close> on
  the open file. \<^verbatim>\<open>open(None)\<close> raises \<^verbatim>\<open>TypeError\<close> before any file is touched.
\<close>

definition read_context :: "world \<Rightarrow> args \<Rightarrow> pystate \<Rightarrow> (error + pyval) \<times> pystate" where
  "read_context w a st =
     (case data a of
        None \<Rightarrow> (Inl TypeError, st)
      | Some p \<Rightarrow>
          (let st' = log (OpenData p) st
           in case open_read_text w p None st' of
                Inl e \<Rightarrow> (Inl e, st')
              | Inr text \<Rightarrow>
                  (case yaml_load w text of
                     Inl e \<Rightarrow> (Inl e, st')
                   | Inr context \<Rightarrow> (Inr context, st'))))"

text \<open>The two \<^verbatim>\<open>for fname in ...\<close> loops of lines 142 to 145, for either import method.\<close>

fun import_each ::
  "(Jinja2TemplateRenderer \<Rightarrow> string \<Rightarrow> pystate \<Rightarrow> (error + Jinja2TemplateRenderer) \<times> pystate) \<Rightarrow>
   Jinja2TemplateRenderer \<Rightarrow> string list \<Rightarrow> pystate \<Rightarrow> (error + Jinja2TemplateRenderer) \<times> pystate" where
  "import_each f renderer [] st = (Inr renderer, st)"
| "import_each f renderer (fname # rest) st =
     (case f renderer fname st of
        (Inl e, st') \<Rightarrow> (Inl e, st')
      | (Inr renderer', st') \<Rightarrow> import_each f renderer' rest st')"

text \<open>
  Lines 151 to 157. \<^verbatim>\<open>if args.output_file\<close> is false for an absent option and for the
  empty string. The file is opened for writing before \<^verbatim>\<open>result.decode('utf-8')\<close> is
  evaluated.
\<close>

definition write_result :: "world \<Rightarrow> args \<Rightarrow> bytes \<Rightarrow> pystate \<Rightarrow> (error + bytes) \<times> pystate" where
  "write_result w a result st =
     (case output_file a of
        None \<Rightarrow> (Inr result, st)
      | Some p \<Rightarrow>
          if p = [] then (Inr result, st)
          else
            (case open_write w p (log (OpenOutput p) st) of
               (Inl e, st1) \<Rightarrow> (Inl e, st1)
             | (Inr h, st1) \<Rightarrow>
                 (case decode UTF8 result of
                    Inl e \<Rightarrow> (Inl e, st1)
                  | Inr text \<Rightarrow>
                      (case write_text w p UTF8 text st1 of
                         (Inl e, st2) \<Rightarrow> (Inl e, st2)
                       | (Inr h', st2) \<Rightarrow> (Inr [], st2)))))"

text \<open>
  \<^verbatim>\<open>render_command(cwd, stdin, argv)\<close>. The renderer is built without a \<^verbatim>\<open>j2_env_params\<close>
  argument, so it works on the shared default dictionary of the process.
\<close>

definition render_command ::
  "world \<Rightarrow> string \<Rightarrow> bytes \<Rightarrow> string list \<Rightarrow> pystate \<Rightarrow> (error + bytes) \<times> pystate" where
  "render_command w c stdin argv st =
     (case parse_args w argv of
        None \<Rightarrow> (Inl SystemExit, st)
      | Some a \<Rightarrow>
     (case read_context w a st of
        (Inl e, st1) \<Rightarrow> (Inl e, st1)
      | (Inr context, st1) \<Rightarrow>
     (case Jinja2TemplateRenderer_init w c (undefined_flag a) CP1252 (default_env_params st1) of
        (renderer, ps) \<Rightarrow>
     (case import_each (import_filters w) renderer (filters a) (st1\<lparr>default_env_params := ps\<rparr>) of
        (Inl e, st2) \<Rightarrow> (Inl e, st2)
      | (Inr renderer2, st2) \<Rightarrow>
     (case import_each (import_tests w) renderer2 (tests a) st2 of
        (Inl e, st3) \<Rightarrow> (Inl e, st3)
      | (Inr renderer3, st3) \<Rightarrow>
     (case render w renderer3 (template a) context st3 of
        (Inl e, st4) \<Rightarrow> (Inl e, st4)
      | (Inr result, st4) \<Rightarrow> write_result w a result st4))))))"

subsection \<open>The \<^verbatim>\<open>__main__\<close> block\<close>

text \<open>
  A process starts with the default dictionary empty and no extension module loaded.
  \<^verbatim>\<open>SystemExit\<close> is caught and becomes exit status 1; any other exception ends the
  process with nothing written; otherwise the bytes go to standard output.
\<close>

datatype outcome = Exit nat | Uncaught error | Stdout bytes

definition process_start :: "(string \<rightharpoonup> fnode) \<Rightarrow> pystate" where
  "process_start fs = \<lparr>files = fs, default_env_params = no_params, sys_modules = Map.empty, trace = []\<rparr>"

definition main :: "world \<Rightarrow> bytes \<Rightarrow> string list \<Rightarrow> (string \<rightharpoonup> fnode) \<Rightarrow> outcome \<times> pystate" where
  "main w stdin argv fs =
     (case render_command w (proc_cwd w) stdin argv (process_start fs) of
        (Inl SystemExit, st) \<Rightarrow> (Exit 1, st)
      | (Inl e, st) \<Rightarrow> (Uncaught e, st)
      | (Inr output, st) \<Rightarrow> (Stdout output, st))"

section \<open>The template engine as the specification describes it\<close>

text \<open>
  Modelled from the spec: the template engine. It is the \<^verbatim>\<open>jinja2\<close> library, which the
  repository imports and the specification treats as an external capability; only its
  configuration surface is described there (section 4.4) and one template is shown
  (section 8, \<^verbatim>\<open>Hello {{ name }}!\<close>). The definition below covers what those words fix:
  literal text, a reference \<^verbatim>\<open>{{ name }}\<close> to a context key, the two undefined policies
  ("undefined variables render as empty" or "any reference to an undefined variable aborts
  rendering with an UndefinedVariableError") and the trailing-newline policy ("preserve the
  template's final trailing newline", which otherwise is stripped). Everything else of the
  template language (tags, comments, expressions other than a plain name, the names the
  engine itself gives a meaning) is rejected, so that no theorem speaks about it. How a
  value that is present is turned into text (Python's \<^verbatim>\<open>str\<close>) is a parameter.
\<close>

datatype seg = Text ustr | Var ustr

definition is_space :: "nat \<Rightarrow> bool" where
  "is_space c = (c = 32 \<or> c = 9 \<or> c = 10 \<or> c = 13)"

definition is_name_start :: "nat \<Rightarrow> bool" where
  "is_name_start c = ((65 \<le> c \<and> c \<le> 90) \<or> (97 \<le> c \<and> c \<le> 122) \<or> c = 95)"

definition is_name_char :: "nat \<Rightarrow> bool" where
  "is_name_char c = (is_name_start c \<or> (48 \<le> c \<and> c \<le> 57))"

definition engine_names :: "ustr list" where
  "engine_names = map ustr_of
     [''true'', ''false'', ''none'', ''True'', ''False'', ''None'', ''and'', ''or'', ''not'',
      ''in'', ''is'', ''if'', ''else'', ''self'', ''range'', ''dict'', ''lipsum'', ''cycler'',
      ''joiner'', ''namespace'', ''_'']"

definition strip :: "ustr \<Rightarrow> ustr" where
  "strip s = rev (dropWhile is_space (rev (dropWhile is_space s)))"

definition var_name :: "ustr \<Rightarrow> ustr option" where
  "var_name inner =
     (let n = strip inner
      in if n \<noteq> [] \<and> is_name_start (hd n) \<and> list_all is_name_char n \<and> n \<notin> set engine_names
         then Some n else None)"

definition text_seg :: "ustr \<Rightarrow> seg list" where
  "text_seg acc = (if acc = [] then [] else [Text (rev acc)])"

text \<open>
  The scanner. The flag tells whether it is inside \<^verbatim>\<open>{{ ... }}\<close>; \<open>acc\<close> holds, in reverse,
  the characters of the piece being read. Code points: 123 \<^verbatim>\<open>{\<close>, 125 \<^verbatim>\<open>}\<close>, 37 \<^verbatim>\<open>%\<close>,
  35 \<^verbatim>\<open>#\<close>.
\<close>

fun lex :: "bool \<Rightarrow> ustr \<Rightarrow> ustr \<Rightarrow> error + seg list" where
  "lex False acc [] = Inr (text_seg acc)"
| "lex True acc [] = Inl TemplateSyntaxError"
| "lex False acc [c] = Inr (text_seg (c # acc))"
| "lex True acc [c] = Inl TemplateSyntaxError"
| "lex False acc (a # b # cs) =
     (if a = 123 \<and> b = 123 then
        (case lex True [] cs of
           Inl e \<Rightarrow> Inl e
         | Inr segs \<Rightarrow> Inr (text_seg acc @ segs))
      else if a = 123 \<and> (b = 37 \<or> b = 35) then Inl TemplateSyntaxError
      else lex False (a # acc) (b # cs))"
| "lex True acc (a # b # cs) =
     (if a = 125 \<and> b = 125 then
        (case var_name (rev acc) of
           None \<Rightarrow> Inl TemplateSyntaxError
         | Some n \<Rightarrow>
             (case lex False [] cs of
                Inl e \<Rightarrow> Inl e
              | Inr segs \<Rightarrow> Inr (Var n # segs)))
      else lex True (a # acc) (b # cs))"

fun exec_seg ::
  "(pyval \<Rightarrow> ustr) \<Rightarrow> undefined_policy \<Rightarrow> (ustr \<times> pyval) list \<Rightarrow> seg \<Rightarrow> error + ustr" where
  "exec_seg str pol vars (Text t) = Inr t"
| "exec_seg str pol vars (Var n) =
     (case map_of vars n of
        Some v \<Rightarrow> Inr (str v)
      | None \<Rightarrow> (case pol of Undefined \<Rightarrow> Inr [] | StrictUndefined \<Rightarrow> Inl (UndefinedError n)))"

fun exec_segs ::
  "(pyval \<Rightarrow> ustr) \<Rightarrow> undefined_policy \<Rightarrow> (ustr \<times> pyval) list \<Rightarrow> seg list \<Rightarrow> error + ustr" where
  "exec_segs str pol vars [] = Inr []"
| "exec_segs str pol vars (s # ss) =
     (case exec_seg str pol vars s of
        Inl e \<Rightarrow> Inl e
      | Inr t \<Rightarrow>
          (case exec_segs str pol vars ss of
             Inl e \<Rightarrow> Inl e
           | Inr r \<Rightarrow> Inr (t @ r)))"

definition strip_trailing_newline :: "ustr \<Rightarrow> ustr" where
  "strip_trailing_newline s = (if s \<noteq> [] \<and> last s = 10 then butlast s else s)"

definition spec_engine :: "(pyval \<Rightarrow> ustr) \<Rightarrow> environment \<Rightarrow> ustr \<Rightarrow> pyval \<Rightarrow> error + ustr" where
  "spec_engine str e source context =
     (case lex False [] (if keep_trailing_newline e then source else strip_trailing_newline source) of
        Inl err \<Rightarrow> Inl err
      | Inr segs \<Rightarrow>
          (case context of
             VMap vars \<Rightarrow> exec_segs str (undefined_cls e) vars segs
           | _ \<Rightarrow> Inl TypeError))"

text \<open>The text a template turns into when every absent reference is replaced by nothing.\<close>

definition fill :: "(pyval \<Rightarrow> ustr) \<Rightarrow> (ustr \<times> pyval) list \<Rightarrow> seg \<Rightarrow> ustr" where
  "fill str vars s =
     (case s of
        Text t \<Rightarrow> t
      | Var n \<Rightarrow> (case map_of vars n of None \<Rightarrow> [] | Some v \<Rightarrow> str v))"

section \<open>Concrete runs\<close>

text \<open>
  One small installation, used to run the definitions: a working directory \<^verbatim>\<open>/work\<close>, a
  handful of command lines with the namespace \<^verbatim>\<open>argparse\<close> makes of each, a handful of YAML
  documents with their parse, and two extension files with the attributes they bind.
  \<open>str_of_scalar\<close> is Python's \<^verbatim>\<open>str\<close> on strings, \<^verbatim>\<open>None\<close> and booleans, which is all these
  runs hold; on other values it is a placeholder.
\<close>

definition args0 :: args where
  "args0 = \<lparr>filters = [], tests = [], customize = None, undefined_flag = False,
             output_file = None, template = ''t.j2'', data = Some ''d.yml''\<rparr>"

definition demo_parse_args :: "string list \<Rightarrow> args option" where
  "demo_parse_args argv = map_of
     [([''t.j2'', ''d.yml''], args0),
      ([''--undefined'', ''t.j2'', ''d.yml''], args0\<lparr>undefined_flag := True\<rparr>),
      ([''-o'', ''out.txt'', ''t.j2'', ''d.yml''], args0\<lparr>output_file := Some ''out.txt''\<rparr>),
      ([''t.j2''], args0\<lparr>data := None\<rparr>),
      ([''t.j2'', ''missing.yml''], args0\<lparr>data := Some ''missing.yml''\<rparr>),
      ([''t.j2'', ''d.yml'', ''--filters'', ''ext.py'', ''--tests'', ''ext2.py''],
         args0\<lparr>filters := [''ext.py''], tests := [''ext2.py'']\<rparr>)] argv"

definition demo_documents :: "(ustr \<times> pyval) list" where
  "demo_documents =
     [(ustr_of ''{}'', VMap []),
      (ustr_of ''name: World'', VMap [(ustr_of ''name'', VStr (ustr_of ''World''))]),
      (ustr_of ''x: |\<newline>  a\<newline>'', VMap [(ustr_of ''x'', VStr [97, 10])]),
      (ustr_of ''name: '' @ [0xE9], VMap [(ustr_of ''name'', VStr [0xE9])]),
      (ustr_of ''name: '' @ [0xC3, 0xA9], VMap [(ustr_of ''name'', VStr [0xC3, 0xA9])])]"

definition demo_yaml :: "ustr \<Rightarrow> error + pyval" where
  "demo_yaml text = (case map_of demo_documents text of None \<Rightarrow> Inl YAMLError | Some v \<Rightarrow> Inr v)"

definition ext_py :: bytes where
  "ext_py = bytes_of ''from os.path import join\<newline>def shout(s): return s.upper()\<newline>class K: pass\<newline>''"

definition ext2_py :: bytes where
  "ext2_py = bytes_of ''def is_big(x): return x > 10\<newline>''"

definition ext_py_bindings :: "string \<rightharpoonup> pyobj" where
  "ext_py_bindings = map_of
     [(''join'', PyFunction ''join'' ''posixpath''),
      (''shout'', PyFunction ''shout'' ''imported-funcs''),
      (''K'', PyClass ''K'')]"

definition demo_exec :: "bytes \<Rightarrow> error + (string \<rightharpoonup> pyobj)" where
  "demo_exec src =
     (if src = ext_py then Inr ext_py_bindings
      else if src = ext2_py then
        Inr (map_of [(''is_big'', PyFunction ''is_big'' ''imported-funcs'')])
      else Inl ExtensionError)"

definition str_of_scalar :: "pyval \<Rightarrow> ustr" where
  "str_of_scalar v =
     (case v of
        VStr s \<Rightarrow> s
      | VNull \<Rightarrow> ustr_of ''None''
      | VBool b \<Rightarrow> (if b then ustr_of ''True'' else ustr_of ''False'')
      | _ \<Rightarrow> ustr_of ''?'')"

definition demo_world :: world where
  "demo_world =
     \<lparr>proc_cwd = ''/work'', preferred_encoding = UTF8, linesep = LF,
      parse_args = demo_parse_args, yaml_load = demo_yaml, exec_source = demo_exec,
      default_filters = Map.empty, default_tests = Map.empty,
      template_engine = spec_engine str_of_scalar\<rparr>"

text \<open>The same installation under a locale whose preferred encoding is Windows-1252.\<close>

definition cp1252_world :: world where
  "cp1252_world = demo_world\<lparr>preferred_encoding := CP1252\<rparr>"

text \<open>
  The directory \<^verbatim>\<open>/work\<close> with its files: a template and a data file with the given
  contents, and the two extension files.
\<close>

definition demo_files :: "bytes \<Rightarrow> bytes \<Rightarrow> (string \<rightharpoonup> fnode)" where
  "demo_files t d = map_of
     [(''/work'', Directory),
      (''/work/t.j2'', Regular t), (''/work/d.yml'', Regular d),
      (''/work/ext.py'', Regular ext_py), (''/work/ext2.py'', Regular ext2_py)]"

text \<open>A template that lies in \<^verbatim>\<open>/srv/templates\<close> and not in the working directory of the process.\<close>

definition srv_files :: "string \<rightharpoonup> fnode" where
  "srv_files = map_of
     [(''/srv'', Directory), (''/srv/templates'', Directory), (''/work'', Directory),
      (''/srv/templates/t.j2'', Regular (bytes_of ''Hello {{ name }}!\<newline>'')),
      (''/work/d.yml'', Regular (bytes_of ''name: World''))]"

text \<open>
  What it means for a registry to be fully populated: \<open>load_all\<close> gives the mappings
  that loading the given files one after the other returns, and the registry is to be
  what it was at the start with each of these merged in, in that order.
\<close>

fun load_all ::
  "world \<Rightarrow> string list \<Rightarrow> pystate \<Rightarrow> (error + (string \<rightharpoonup> pyobj) list) \<times> pystate" where
  "load_all w [] st = (Inr [], st)"
| "load_all w (fname # rest) st =
     (case import_functions w fname st of
        (Inl e, st') \<Rightarrow> (Inl e, st')
      | (Inr m, st') \<Rightarrow>
          (case load_all w rest st' of
             (Inl e, st'') \<Rightarrow> (Inl e, st'')
           | (Inr ms, st'') \<Rightarrow> (Inr (m # ms), st'')))"

text \<open>The part of a renderer that loading extensions does not touch.\<close>

definition cfg_of ::
  "Jinja2TemplateRenderer \<Rightarrow> codec \<times> bool \<times> undefined_policy \<times> FilePathLoader option" where
  "cfg_of r = (encoding r, keep_trailing_newline (env r), undefined_cls (env r), loader (env r))"

section \<open>Evaluation and frame lemmas\<close>

lemmas codec_defs = encode_def decode_def is_cont_def cont_bits_def utf8_encode_char_def
  cp1252_encode_char_def cp1252_decode_byte_def cp1252_table_def

lemmas io_defs = log_def os_path_join_def abspath_def open_read_text_def open_write_def write_text_def

lemmas prog_defs = FilePathLoader_init_def get_source_def ENABLED_EXTENSIONS_def setdefault_def
  Environment_def Jinja2TemplateRenderer_init_def register_filters_def register_tests_def
  imp_load_source_def function_members_def import_functions_def import_filters_def import_tests_def
  get_template_def render_def read_context_def write_result_def render_command_def
  process_start_def main_def no_params_def

lemmas engine_defs = is_space_def is_name_start_def is_name_char_def engine_names_def strip_def
  var_name_def text_seg_def strip_trailing_newline_def spec_engine_def

lemmas demo_defs = args0_def demo_parse_args_def demo_documents_def demo_yaml_def ext_py_def
  ext2_py_def ext_py_bindings_def demo_exec_def srv_files_def str_of_scalar_def parent_dir_def demo_world_def cp1252_world_def demo_files_def
  ustr_of_def bytes_of_def

lemma import_functions_state:
  "import_functions w f st = (res, st') \<Longrightarrow>
   trace st' = trace st @ [LoadSource f] \<and> files st' = files st
   \<and> default_env_params st' = default_env_params st"
  by (auto simp: import_functions_def imp_load_source_def log_def Let_def
      split: option.splits sum.splits prod.splits fnode.splits)

lemma import_filters_step:
  assumes "import_filters w r f st = (res, st')"
  shows "trace st' = trace st @ [LoadSource f] \<and> files st' = files st
       \<and> default_env_params st' = default_env_params st
       \<and> (\<forall>r'. res = Inr r' \<longrightarrow> cfg_of r' = cfg_of r)"
proof (cases "import_functions w f st")
  case (Pair x s)
  with assms import_functions_state [OF Pair] show ?thesis
    by (cases x) (auto simp: import_filters_def register_filters_def cfg_of_def)
qed

lemma import_tests_step:
  assumes "import_tests w r f st = (res, st')"
  shows "trace st' = trace st @ [LoadSource f] \<and> files st' = files st
       \<and> default_env_params st' = default_env_params st
       \<and> (\<forall>r'. res = Inr r' \<longrightarrow> cfg_of r' = cfg_of r)"
proof (cases "import_functions w f st")
  case (Pair x s)
  with assms import_functions_state [OF Pair] show ?thesis
    by (cases x) (auto simp: import_tests_def register_tests_def cfg_of_def)
qed

lemma import_each_state:
  assumes step: "\<And>r x s res s'. f r x s = (res, s') \<Longrightarrow>
            trace s' = trace s @ [LoadSource x] \<and> files s' = files s
            \<and> default_env_params s' = default_env_params s
            \<and> (\<forall>r'. res = Inr r' \<longrightarrow> cfg_of r' = cfg_of r)"
  shows "import_each f r xs st = (res, st') \<Longrightarrow>
         files st' = files st \<and> default_env_params st' = default_env_params st
         \<and> (\<exists>k\<le>length xs. trace st' = trace st @ map LoadSource (take k xs))
         \<and> (\<forall>r'. res = Inr r' \<longrightarrow> cfg_of r' = cfg_of r \<and> trace st' = trace st @ map LoadSource xs)"
proof (induction xs arbitrary: r st)
  case Nil
  then show ?case by auto
next
  case (Cons x xs)
  obtain y s where fx: "f r x st = (y, s)" by (cases "f r x st")
  note s1 = step [OF fx]
  show ?case
  proof (cases y)
    case (Inl e)
    with Cons.prems fx have "res = Inl e" "st' = s" by auto
    with s1 show ?thesis
      by (auto intro!: exI [of _ 1])
  next
    case (Inr r1)
    with Cons.prems fx have run: "import_each f r1 xs s = (res, st')" by auto
    from Cons.IH [OF run] obtain k where k: "k \<le> length xs"
      "trace st' = trace s @ map LoadSource (take k xs)"
      and rest: "files st' = files s" "default_env_params st' = default_env_params s"
        "\<forall>r'. res = Inr r' \<longrightarrow> cfg_of r' = cfg_of r1 \<and> trace st' = trace s @ map LoadSource xs"
      by blast
    from s1 Inr have c1: "cfg_of r1 = cfg_of r" by simp
    have "trace st' = trace st @ map LoadSource (take (Suc k) (x # xs))"
      using k s1 by simp
    moreover have "Suc k \<le> length (x # xs)" using k by simp
    ultimately have "\<exists>k\<le>length (x # xs). trace st' = trace st @ map LoadSource (take k (x # xs))"
      by blast
    with rest s1 c1 show ?thesis by auto
  qed
qed

lemma read_context_state:
  "read_context w a st = (res, st1) \<Longrightarrow>
   (data a = None \<and> st1 = st \<and> res = Inl TypeError)
   \<or> (\<exists>d. data a = Some d \<and> st1 = log (OpenData d) st)"
  by (auto simp: read_context_def Let_def split: option.splits sum.splits)

lemma read_context_missing:
  "data a = Some d \<Longrightarrow> files st (abspath w d) = None \<Longrightarrow>
   read_context w a st = (Inl (OSError FileNotFoundError d), log (OpenData d) st)"
  by (simp add: read_context_def open_read_text_def log_def)

lemma render_state:
  "loader (env r) = Some l \<Longrightarrow> snd (render w r t ctx st) = log (OpenTemplate t) st"
  by (simp add: render_def get_template_def get_source_def Let_def
      split: option.splits sum.splits prod.splits error.splits)

lemma open_write_trace: "open_write w p st = (r, st') \<Longrightarrow> trace st' = trace st"
  by (auto simp: open_write_def split: option.splits fnode.splits if_splits)

lemma write_text_trace: "write_text w p enc s st = (r, st') \<Longrightarrow> trace st' = trace st"
  by (auto simp: write_text_def split: sum.splits)

lemma write_result_trace:
  assumes "write_result w a bs st = (res, st')"
  shows "trace st' = trace st \<or> (\<exists>p. trace st' = trace st @ [OpenOutput p])"
proof (cases "output_file a")
  case None
  with assms show ?thesis by (simp add: write_result_def)
next
  case (Some p)
  show ?thesis
  proof (cases "p = []")
    case True
    with assms Some show ?thesis by (simp add: write_result_def)
  next
    case False
    obtain r1 s1 where ow: "open_write w p (log (OpenOutput p) st) = (r1, s1)"
      by (cases "open_write w p (log (OpenOutput p) st)")
    from open_write_trace [OF ow] have t1: "trace s1 = trace st @ [OpenOutput p]"
      by (simp add: log_def)
    show ?thesis
    proof (cases r1)
      case (Inl e)
      with assms Some False ow t1 show ?thesis by (auto simp: write_result_def)
    next
      case (Inr h)
      show ?thesis
      proof (cases "decode UTF8 bs")
        case (Inl e)
        with assms Some False ow t1 \<open>r1 = Inr h\<close> show ?thesis by (auto simp: write_result_def)
      next
        case (Inr decoded)
        obtain r2 s2 where wt: "write_text w p UTF8 decoded s1 = (r2, s2)"
          by (cases "write_text w p UTF8 decoded s1")
        from write_text_trace [OF wt] t1 have "trace s2 = trace st @ [OpenOutput p]" by simp
        with assms Some False ow wt Inr \<open>r1 = Inr h\<close> show ?thesis
          by (cases r2) (auto simp: write_result_def)
      qed
    qed
  qed
qed

lemma import_each_filters:
  assumes "import_each (import_filters w) r xs st = (res, st')"
  shows "files st' = files st \<and> default_env_params st' = default_env_params st
         \<and> (\<exists>k\<le>length xs. trace st' = trace st @ map LoadSource (take k xs))
         \<and> (\<forall>r'. res = Inr r' \<longrightarrow> cfg_of r' = cfg_of r \<and> trace st' = trace st @ map LoadSource xs)"
  by (rule import_each_state [where f = "import_filters w", OF _ assms]) (rule import_filters_step)

lemma import_each_tests:
  assumes "import_each (import_tests w) r xs st = (res, st')"
  shows "files st' = files st \<and> default_env_params st' = default_env_params st
         \<and> (\<exists>k\<le>length xs. trace st' = trace st @ map LoadSource (take k xs))
         \<and> (\<forall>r'. res = Inr r' \<longrightarrow> cfg_of r' = cfg_of r \<and> trace st' = trace st @ map LoadSource xs)"
  by (rule import_each_state [where f = "import_tests w", OF _ assms]) (rule import_tests_step)

subsection \<open>Codecs\<close>

lemma ascii_byte:
  assumes "c < 128"
  shows "(of_nat c :: 8 word) < 0x80" and "unat (of_nat c :: 8 word) = c"
proof -
  show u: "unat (of_nat c :: 8 word) = c"
    using assms by (simp add: unat_of_nat)
  show "(of_nat c :: 8 word) < 0x80"
    using assms u by (simp add: word_less_nat_alt)
qed

lemma cp1252_encode_append_Some:
  "cp1252_encode (xs @ ys) = Some r \<Longrightarrow>
   \<exists>a b. cp1252_encode xs = Some a \<and> cp1252_encode ys = Some b \<and> r = a @ b"
  by (induction xs arbitrary: r) (auto split: option.splits)

lemma cp1252_high_byte:
  assumes "cp1252_encode_char c = Some b" and "128 \<le> c"
  shows "0x80 \<le> b"
proof (cases "0xA0 \<le> c \<and> c \<le> 0xFF")
  case True
  with assms have b: "b = of_nat c" by (simp add: cp1252_encode_char_def)
  from True have "unat (of_nat c :: 8 word) = c" by (simp add: unat_of_nat)
  with True b show ?thesis by (simp add: word_le_nat_alt)
next
  case False
  with assms have "map_of cp1252_table c = Some b"
    by (simp add: cp1252_encode_char_def)
  then show ?thesis
    by (auto simp: cp1252_table_def split: if_splits)
qed

subsection \<open>Process state\<close>

lemma log_fields:
  "files (log ev st) = files st"
  "default_env_params (log ev st) = default_env_params st"
  "sys_modules (log ev st) = sys_modules st"
  "trace (log ev st) = trace st @ [ev]"
  by (simp_all add: log_def)

subsection \<open>The engine of the specification\<close>

lemma exec_segs_permissive:
  "exec_segs str Undefined vars segs = Inr (concat (map (fill str vars) segs))"
proof (induction segs)
  case Nil
  show ?case by simp
next
  case (Cons s segs)
  then show ?case
    by (cases s) (simp_all add: fill_def split: option.splits)
qed

lemma exec_segs_strict_missing:
  assumes "Var n \<in> set segs" and "map_of vars n = None"
  shows "\<exists>m. Var m \<in> set segs \<and> map_of vars m = None
           \<and> exec_segs str StrictUndefined vars segs = Inl (UndefinedError m)"
  using assms
proof (induction segs)
  case Nil
  then show ?case by simp
next
  case (Cons s segs)
  show ?case
  proof (cases "exec_seg str StrictUndefined vars s")
    case (Inl e)
    then obtain m where "s = Var m" "map_of vars m = None" "e = UndefinedError m"
      by (cases s) (auto split: option.splits)
    with Inl show ?thesis by auto
  next
    case (Inr t)
    with Cons.prems have "Var n \<in> set segs"
      by (cases s) (auto split: option.splits)
    from Cons.IH [OF this Cons.prems(2)] obtain m where
      "Var m \<in> set segs" "map_of vars m = None"
      "exec_segs str StrictUndefined vars segs = Inl (UndefinedError m)"
      by blast
    with Inr show ?thesis by auto
  qed
qed

lemma render_spec_engine:
  assumes eng: "template_engine w = spec_engine str"
      and cfg: "cfg_of r = (enc, True, pol, Some l)"
      and readable: "files st (abspath w t) = Some (Regular bs)"
      and dec: "decode (loader_encoding l) bs = Inr raw"
      and lx: "lex False [] (universal_newlines raw) = Inr segs"
  shows "render w r t (VMap vars) st =
     ((case exec_segs str pol vars segs of
         Inl e \<Rightarrow> Inl e
       | Inr rendered \<Rightarrow> encode enc rendered), log (OpenTemplate t) st)"
proof -
  from cfg have e: "encoding r = enc" and k: "keep_trailing_newline (env r)"
    and p: "undefined_cls (env r) = pol" and l: "loader (env r) = Some l"
    by (simp_all add: cfg_of_def)
  have gt: "get_template w (env r) t st = (Inr (universal_newlines raw), log (OpenTemplate t) st)"
    using l readable dec
    by (simp add: get_template_def get_source_def open_read_text_def log_fields)
  show ?thesis
    using eng k p lx
    by (simp add: render_def gt e spec_engine_def split: sum.splits)
qed

lemma init_cfg:
  "cfg_of (fst (Jinja2TemplateRenderer_init w c allow_undefined enc no_params))
   = (enc, True, if allow_undefined then Undefined else StrictUndefined,
      Some \<lparr>cwd = c, loader_encoding = UTF8\<rparr>)"
  by (simp add: cfg_of_def Jinja2TemplateRenderer_init_def Environment_def setdefault_def
      no_params_def FilePathLoader_init_def)

lemma lex_no_segments:
  "lex mode acc s = Inr [] \<Longrightarrow> \<not> mode \<and> acc = [] \<and> s = []"
proof (induction mode acc s rule: lex.induct)
  case (1 acc)
  then show ?case by (simp add: text_seg_def split: if_splits)
next
  case (2 acc)
  then show ?case by simp
next
  case (3 acc c)
  then show ?case by (simp add: text_seg_def)
next
  case (4 acc c)
  then show ?case by simp
next
  case (5 acc a b cs)
  show ?case
  proof (cases "a = 123 \<and> b = 123")
    case True
    with "5.prems" obtain segs' where "lex True [] cs = Inr segs'" "text_seg acc @ segs' = []"
      by (auto split: sum.splits)
    then have "lex True [] cs = Inr []" by simp
    from "5.IH"(1) [OF True this] show ?thesis by simp
  next
    case False
    with "5.prems" have notag: "\<not> (a = 123 \<and> (b = 37 \<or> b = 35))"
      and rec: "lex False (a # acc) (b # cs) = Inr []"
      by (auto split: if_splits)
    from "5.IH"(2) [OF False notag rec] show ?thesis by simp
  qed
next
  case (6 acc a b cs)
  show ?case
  proof (cases "a = 125 \<and> b = 125")
    case True
    with "6.prems" show ?thesis by (auto split: option.splits sum.splits)
  next
    case False
    with "6.prems" have rec: "lex True (a # acc) (b # cs) = Inr []"
      by (auto split: if_splits)
    from "6.IH"(2) [OF False rec] show ?thesis by simp
  qed
qed

lemma lex_last_text:
  "lex mode acc s = Inr segs \<Longrightarrow> segs \<noteq> [] \<Longrightarrow> last segs = Text t \<Longrightarrow>
   t \<noteq> [] \<and> (if s = [] then t = rev acc else last t = last s)"
proof (induction mode acc s arbitrary: segs rule: lex.induct)
  case (1 acc)
  then show ?case by (auto simp: text_seg_def split: if_splits)
next
  case (2 acc)
  then show ?case by simp
next
  case (3 acc c)
  then show ?case by (auto simp: text_seg_def)
next
  case (4 acc c)
  then show ?case by simp
next
  case (5 acc a b cs)
  show ?case
  proof (cases "a = 123 \<and> b = 123")
    case True
    with "5.prems"(1) obtain segs' where s': "lex True [] cs = Inr segs'"
      and segs: "segs = text_seg acc @ segs'"
      by (auto split: sum.splits)
    from s' lex_no_segments [of True "[]" cs] have ne': "segs' \<noteq> []" by auto
    with segs "5.prems"(3) have l': "last segs' = Text t" by simp
    from s' have ne: "cs \<noteq> []" by (cases cs) auto
    from "5.IH"(1) [OF True s' ne' l'] ne show ?thesis by simp
  next
    case False
    with "5.prems"(1) have notag: "\<not> (a = 123 \<and> (b = 37 \<or> b = 35))"
      and rec: "lex False (a # acc) (b # cs) = Inr segs"
      by (auto split: if_splits)
    from "5.IH"(2) [OF False notag rec "5.prems"(2,3)] show ?thesis by simp
  qed
next
  case (6 acc a b cs)
  show ?case
  proof (cases "a = 125 \<and> b = 125")
    case True
    with "6.prems"(1) obtain n segs' where n: "var_name (rev acc) = Some n"
      and s': "lex False [] cs = Inr segs'" and segs: "segs = Var n # segs'"
      by (auto split: option.splits sum.splits)
    from segs "6.prems"(3) have ne': "segs' \<noteq> []" by (cases segs') auto
    with segs "6.prems"(3) have l': "last segs' = Text t" by simp
    from "6.IH"(1) [OF True n s' ne' l'] have t: "t \<noteq> []"
      and c: "if cs = [] then t = rev [] else last t = last cs"
      by simp_all
    from t c have "cs \<noteq> []" by (auto split: if_splits)
    with t c show ?thesis by simp
  next
    case False
    with "6.prems"(1) have rec: "lex True (a # acc) (b # cs) = Inr segs"
      by (auto split: if_splits)
    from "6.IH"(2) [OF False rec "6.prems"(2,3)] show ?thesis by simp
  qed
qed

lemma exec_segs_final_text:
  "exec_segs str pol vars segs = Inr rendered \<Longrightarrow> segs \<noteq> [] \<Longrightarrow> last segs = Text t \<Longrightarrow>
   \<exists>x. rendered = x @ t"
proof (induction segs arbitrary: rendered)
  case Nil
  then show ?case by simp
next
  case (Cons s segs)
  show ?case
  proof (cases "segs = []")
    case True
    with Cons.prems show ?thesis by auto
  next
    case False
    from Cons.prems(1) obtain y r where r: "exec_segs str pol vars segs = Inr r"
      and "rendered = y @ r"
      by (auto split: sum.splits)
    moreover from False Cons.prems(3) have "last segs = Text t" by simp
    ultimately show ?thesis using Cons.IH [OF r False] by auto
  qed
qed

lemma exec_segs_final_var:
  "exec_segs str pol vars segs = Inr rendered \<Longrightarrow> segs \<noteq> [] \<Longrightarrow> last segs = Var n \<Longrightarrow>
   \<exists>x. rendered = x @ fill str vars (Var n)"
proof (induction segs arbitrary: rendered)
  case Nil
  then show ?case by simp
next
  case (Cons s segs)
  show ?case
  proof (cases "segs = []")
    case True
    with Cons.prems show ?thesis
      by (auto simp: fill_def split: option.splits undefined_policy.splits)
  next
    case False
    from Cons.prems(1) obtain y r where r: "exec_segs str pol vars segs = Inr r"
      and "rendered = y @ r"
      by (auto split: sum.splits)
    moreover from False Cons.prems(3) have "last segs = Var n" by simp
    ultimately show ?thesis using Cons.IH [OF r False] by auto
  qed
qed

lemma cp1252_newline:
  assumes "cp1252_encode_char c = Some b"
  shows "b = 0x0A \<longleftrightarrow> c = 10"
proof (cases "c < 128")
  case True
  with assms have b: "b = of_nat c" by (simp add: cp1252_encode_char_def)
  from ascii_byte(2) [OF True] b have "unat b = c" by simp
  then show ?thesis by (auto simp: word_unat_eq_iff)
next
  case False
  then have "128 \<le> c" by simp
  from cp1252_high_byte [OF assms this] have "b \<noteq> 0x0A" by auto
  with False show ?thesis by simp
qed

lemma cp1252_encode_last:
  assumes "cp1252_encode (x @ t) = Some out" and "t \<noteq> []"
  shows "out \<noteq> [] \<and> (last out = 0x0A \<longleftrightarrow> last t = 10)"
proof -
  from assms(2) obtain t' c where t: "t = t' @ [c]"
    by (cases t rule: rev_cases) auto
  with assms(1) have "cp1252_encode ((x @ t') @ [c]) = Some out" by simp
  from cp1252_encode_append_Some [OF this] obtain o1 o2 where
    o2: "cp1252_encode [c] = Some o2" and out: "out = o1 @ o2"
    by blast
  from o2 obtain b where b: "cp1252_encode_char c = Some b" and "o2 = [b]"
    by (auto split: option.splits)
  with out t cp1252_newline [OF b] show ?thesis by simp
qed

subsection \<open>The extension loops\<close>

lemma import_each_filters_load:
  "import_each (import_filters w) r xs st =
     (case load_all w xs st of
        (Inl e, s) \<Rightarrow> (Inl e, s)
      | (Inr ms, s) \<Rightarrow>
          (Inr (r\<lparr>env := (env r)\<lparr>env_filters := foldl (++) (env_filters (env r)) ms\<rparr>\<rparr>), s))"
proof (induction xs arbitrary: r st)
  case Nil
  show ?case by simp
next
  case (Cons x xs)
  obtain y s where fx: "import_functions w x st = (y, s)" by (cases "import_functions w x st")
  have step: "import_filters w r x st =
      (case y of Inl e \<Rightarrow> (Inl e, s) | Inr m \<Rightarrow> (Inr (register_filters r m), s))"
    using fx by (simp add: import_filters_def split: sum.splits)
  show ?case
    by (cases y) (simp_all add: step fx Cons.IH register_filters_def split: prod.splits sum.splits)
qed

lemma import_each_tests_load:
  "import_each (import_tests w) r xs st =
     (case load_all w xs st of
        (Inl e, s) \<Rightarrow> (Inl e, s)
      | (Inr ms, s) \<Rightarrow>
          (Inr (r\<lparr>env := (env r)\<lparr>env_tests := foldl (++) (env_tests (env r)) ms\<rparr>\<rparr>), s))"
proof (induction xs arbitrary: r st)
  case Nil
  show ?case by simp
next
  case (Cons x xs)
  obtain y s where fx: "import_functions w x st = (y, s)" by (cases "import_functions w x st")
  have step: "import_tests w r x st =
      (case y of Inl e \<Rightarrow> (Inl e, s) | Inr m \<Rightarrow> (Inr (register_tests r m), s))"
    using fx by (simp add: import_tests_def split: sum.splits)
  show ?case
    by (cases y) (simp_all add: step fx Cons.IH register_tests_def split: prod.splits sum.splits)
qed

lemma load_all_trace:
  "load_all w xs st = (res, st') \<Longrightarrow>
     (\<exists>k\<le>length xs. trace st' = trace st @ map LoadSource (take k xs))
     \<and> (\<forall>ms. res = Inr ms \<longrightarrow> trace st' = trace st @ map LoadSource xs)"
proof (induction xs arbitrary: st res st')
  case Nil
  then show ?case by auto
next
  case (Cons x xs)
  obtain y s where fx: "import_functions w x st = (y, s)" by (cases "import_functions w x st")
  from import_functions_state [OF fx] have ts: "trace s = trace st @ [LoadSource x]" by simp
  show ?case
  proof (cases y)
    case (Inl e)
    with Cons.prems fx have "res = Inl e" "st' = s" by auto
    with ts show ?thesis by (auto intro!: exI [of _ 1])
  next
    case (Inr m)
    obtain z s' where rec: "load_all w xs s = (z, s')" by (cases "load_all w xs s")
    with Cons.prems fx Inr have st': "st' = s'" and res: "res = (case z of Inl e \<Rightarrow> Inl e | Inr ms \<Rightarrow> Inr (m # ms))"
      by (auto split: sum.splits)
    from Cons.IH [OF rec] obtain k where k: "k \<le> length xs"
      "trace s' = trace s @ map LoadSource (take k xs)"
      and full: "\<forall>ms. z = Inr ms \<longrightarrow> trace s' = trace s @ map LoadSource xs"
      by blast
    have "trace st' = trace st @ map LoadSource (take (Suc k) (x # xs))"
      using k ts st' by simp
    moreover have "Suc k \<le> length (x # xs)" using k by simp
    ultimately have part: "\<exists>k\<le>length (x # xs). trace st' = trace st @ map LoadSource (take k (x # xs))"
      by blast
    have "\<forall>ms. res = Inr ms \<longrightarrow> trace st' = trace st @ map LoadSource (x # xs)"
      using full res ts st' by (auto split: sum.splits)
    with part show ?thesis by simp
  qed
qed

lemma init_env:
  "Jinja2TemplateRenderer_init w c fl enc ps = (r0, ps') \<Longrightarrow>
   env_filters (env r0) = default_filters w \<and> env_tests (env r0) = default_tests w
   \<and> (\<exists>l. loader (env r0) = Some l)"
  by (auto simp: Jinja2TemplateRenderer_init_def Environment_def setdefault_def Let_def
      split: option.splits)

section \<open>The claims\<close>

text \<open>
  C8. When the optional data-file argument is omitted, \<^verbatim>\<open>args.data\<close> is \<^verbatim>\<open>None\<close> and the
  pipeline fails in \<^verbatim>\<open>open(None)\<close> with a \<^verbatim>\<open>TypeError\<close>: no file is read or written, no
  event is recorded, whatever standard input holds, and the process ends on the uncaught
  exception with nothing written to standard output.
\<close>

theorem omitted_data_fails:
  assumes "parse_args w argv = Some a" and "data a = None"
  shows "render_command w c stdin argv st = (Inl TypeError, st)
       \<and> main w stdin argv fs = (Uncaught TypeError, process_start fs)"
  using assms by (simp add: render_command_def read_context_def main_def)

theorem omitted_data_fails_witness:
  "parse_args demo_world [''t.j2''] = Some (args0\<lparr>data := None\<rparr>)
   \<and> main demo_world (bytes_of ''name: World'') [''t.j2'']
        (demo_files (bytes_of ''Hello {{ name }}!'') (bytes_of ''name: World''))
      = (Uncaught TypeError,
         process_start (demo_files (bytes_of ''Hello {{ name }}!'') (bytes_of ''name: World'')))"
  using omitted_data_fails [of demo_world "[''t.j2'']" "args0\<lparr>data := None\<rparr>" "''/work''"
      "bytes_of ''name: World''"
      "process_start (demo_files (bytes_of ''Hello {{ name }}!'') (bytes_of ''name: World''))"
      "demo_files (bytes_of ''Hello {{ name }}!'') (bytes_of ''name: World'')"]
  by (simp add: demo_world_def demo_parse_args_def args0_def)

text \<open>
  C5. A run whose data-file path names no file fails with \<^verbatim>\<open>FileNotFoundError\<close> having done
  nothing but the attempt to open that file: no template is loaded, no extension file is
  read. More generally, whenever a run reaches the loading of the template, the data file
  has been opened and parsed into the context, every file of \<^verbatim>\<open>--filters\<close> and then every
  file of \<^verbatim>\<open>--tests\<close> has been loaded, and \<^verbatim>\<open>render\<close> is called with that context and with
  the renderer whose filter registry is the initial one with the mappings of all filter
  files merged in, in order, and whose test registry is the same for the test files. The
  only I/O call that can follow the template load is the opening of the output file.
\<close>

theorem data_and_extensions_before_template:
  assumes pa: "parse_args w argv = Some a"
      and run: "render_command w c stdin argv st = (res, st')"
  shows "(\<forall>d. data a = Some d \<and> files st (abspath w d) = None \<longrightarrow>
            res = Inl (OSError FileNotFoundError d) \<and> st' = log (OpenData d) st)
       \<and> (\<exists>new. trace st' = trace st @ new \<and>
            ((\<exists>t. OpenTemplate t \<in> set new) \<longrightarrow>
               (\<exists>d context st1 r0 ps fs st2 ts st3 rest.
                    data a = Some d
                  \<and> read_context w a st = (Inr context, st1)
                  \<and> Jinja2TemplateRenderer_init w c (undefined_flag a) CP1252 (default_env_params st1)
                      = (r0, ps)
                  \<and> load_all w (filters a) (st1\<lparr>default_env_params := ps\<rparr>) = (Inr fs, st2)
                  \<and> load_all w (tests a) st2 = (Inr ts, st3)
                  \<and> trace st3 = trace st @ OpenData d # map LoadSource (filters a @ tests a)
                  \<and> (res, st') =
                      (case render w
                              (r0\<lparr>env := (env r0)
                                    \<lparr>env_filters := foldl (++) (default_filters w) fs,
                                     env_tests := foldl (++) (default_tests w) ts\<rparr>\<rparr>)
                              (template a) context st3 of
                         (Inl e, s) \<Rightarrow> (Inl e, s)
                       | (Inr result, s) \<Rightarrow> write_result w a result s)
                  \<and> new = OpenData d # map LoadSource (filters a @ tests a)
                            @ OpenTemplate (template a) # rest
                  \<and> (rest = [] \<or> (\<exists>p. rest = [OpenOutput p])))))"
proof -
  have first: "\<forall>d. data a = Some d \<and> files st (abspath w d) = None \<longrightarrow>
            res = Inl (OSError FileNotFoundError d) \<and> st' = log (OpenData d) st"
    using pa run by (auto simp: render_command_def read_context_missing)
  obtain rc st1 where rc: "read_context w a st = (rc, st1)" by (cases "read_context w a st")
  obtain r0 ps where init:
    "Jinja2TemplateRenderer_init w c (undefined_flag a) CP1252 (default_env_params st1) = (r0, ps)"
    by (cases "Jinja2TemplateRenderer_init w c (undefined_flag a) CP1252 (default_env_params st1)")
  from init_env [OF init] obtain l0 where f0: "env_filters (env r0) = default_filters w"
    and t0: "env_tests (env r0) = default_tests w" and l0: "loader (env r0) = Some l0"
    by blast
  let ?s0 = "st1\<lparr>default_env_params := ps\<rparr>"
  let ?P = "\<lambda>new. (\<exists>t. OpenTemplate t \<in> set new) \<longrightarrow>
               (\<exists>d context st1 r0 ps fs st2 ts st3 rest.
                    data a = Some d
                  \<and> read_context w a st = (Inr context, st1)
                  \<and> Jinja2TemplateRenderer_init w c (undefined_flag a) CP1252 (default_env_params st1)
                      = (r0, ps)
                  \<and> load_all w (filters a) (st1\<lparr>default_env_params := ps\<rparr>) = (Inr fs, st2)
                  \<and> load_all w (tests a) st2 = (Inr ts, st3)
                  \<and> trace st3 = trace st @ OpenData d # map LoadSource (filters a @ tests a)
                  \<and> (res, st') =
                      (case render w
                              (r0\<lparr>env := (env r0)
                                    \<lparr>env_filters := foldl (++) (default_filters w) fs,
                                     env_tests := foldl (++) (default_tests w) ts\<rparr>\<rparr>)
                              (template a) context st3 of
                         (Inl e, s) \<Rightarrow> (Inl e, s)
                       | (Inr result, s) \<Rightarrow> write_result w a result s)
                  \<and> new = OpenData d # map LoadSource (filters a @ tests a)
                            @ OpenTemplate (template a) # rest
                  \<and> (rest = [] \<or> (\<exists>p. rest = [OpenOutput p])))"
  have second: "\<exists>new. trace st' = trace st @ new \<and> ?P new"
  proof (cases rc)
    case (Inl e)
    with pa run rc have "res = Inl e" "st' = st1" by (auto simp: render_command_def)
    with read_context_state [OF rc] show ?thesis
      by (auto simp: log_def)
  next
    case (Inr cx)
    with read_context_state [OF rc] obtain d where d: "data a = Some d" "st1 = log (OpenData d) st"
      by auto
    have t1: "trace ?s0 = trace st @ [OpenData d]"
      using d by (simp add: log_def)
    obtain x2 st2 where i1: "load_all w (filters a) ?s0 = (x2, st2)"
      by (cases "load_all w (filters a) ?s0")
    note s2 = load_all_trace [OF i1]
    show ?thesis
    proof (cases x2)
      case (Inl e)
      with pa run rc \<open>rc = Inr cx\<close> init i1 have "st' = st2"
        by (simp add: render_command_def import_each_filters_load)
      moreover from s2 t1 obtain k where "trace st2 = trace st @ OpenData d # map LoadSource (take k (filters a))"
        by auto
      ultimately show ?thesis
        by (intro exI [of _ "OpenData d # map LoadSource (take k (filters a))"]) auto
    next
      case (Inr fs)
      with s2 t1 have t2: "trace st2 = trace st @ OpenData d # map LoadSource (filters a)"
        by auto
      obtain x3 st3 where i2: "load_all w (tests a) st2 = (x3, st3)"
        by (cases "load_all w (tests a) st2")
      note s3 = load_all_trace [OF i2]
      show ?thesis
      proof (cases x3)
        case (Inl e)
        with pa run rc \<open>rc = Inr cx\<close> \<open>x2 = Inr fs\<close> init i1 i2 have "st' = st3"
          by (simp add: render_command_def import_each_filters_load import_each_tests_load)
        moreover from s3 t2 obtain k where
          "trace st3 = trace st @ OpenData d # map LoadSource (filters a) @ map LoadSource (take k (tests a))"
          by auto
        ultimately show ?thesis
          by (intro exI [of _ "OpenData d # map LoadSource (filters a) @ map LoadSource (take k (tests a))"]) auto
      next
        case (Inr ts)
        let ?r = "r0\<lparr>env := (env r0)
                      \<lparr>env_filters := foldl (++) (default_filters w) fs,
                       env_tests := foldl (++) (default_tests w) ts\<rparr>\<rparr>"
        from s3 t2 Inr have t3: "trace st3 = trace st @ OpenData d # map LoadSource (filters a @ tests a)"
          by auto
        have l3: "loader (env ?r) = Some l0" using l0 by simp
        have cont: "(res, st') =
            (case render w ?r (template a) cx st3 of
               (Inl e, s) \<Rightarrow> (Inl e, s)
             | (Inr result, s) \<Rightarrow> write_result w a result s)"
          using pa run rc \<open>rc = Inr cx\<close> \<open>x2 = Inr fs\<close> \<open>x3 = Inr ts\<close> init i1 i2 f0 t0
          by (simp add: render_command_def import_each_filters_load import_each_tests_load)
        obtain x4 st4 where rn: "render w ?r (template a) cx st3 = (x4, st4)"
          by (cases "render w ?r (template a) cx st3")
        from render_state [OF l3, of w "template a" cx st3] rn
        have "st4 = log (OpenTemplate (template a)) st3" by simp
        with t3 have t4: "trace st4 = trace st @ OpenData d # map LoadSource (filters a @ tests a) @ [OpenTemplate (template a)]"
          by (simp add: log_def)
        have facts: "data a = Some d \<and> read_context w a st = (Inr cx, st1)
            \<and> Jinja2TemplateRenderer_init w c (undefined_flag a) CP1252 (default_env_params st1) = (r0, ps)
            \<and> load_all w (filters a) ?s0 = (Inr fs, st2)
            \<and> load_all w (tests a) st2 = (Inr ts, st3)
            \<and> trace st3 = trace st @ OpenData d # map LoadSource (filters a @ tests a)"
          using d rc \<open>rc = Inr cx\<close> init i1 i2 \<open>x2 = Inr fs\<close> \<open>x3 = Inr ts\<close> t3 by simp
        have tail: "\<exists>rest. trace st' = trace st @ OpenData d # map LoadSource (filters a @ tests a)
                            @ OpenTemplate (template a) # rest
                  \<and> (rest = [] \<or> (\<exists>p. rest = [OpenOutput p]))"
        proof (cases x4)
          case (Inl e)
          with cont rn have "st' = st4" by simp
          with t4 show ?thesis by simp
        next
          case (Inr result)
          with cont rn have "write_result w a result st4 = (res, st')" by simp
          from write_result_trace [OF this] t4 show ?thesis by auto
        qed
        then obtain rest where rest: "trace st' = trace st @ OpenData d # map LoadSource (filters a @ tests a)
                            @ OpenTemplate (template a) # rest"
          "rest = [] \<or> (\<exists>p. rest = [OpenOutput p])"
          by blast
        show ?thesis
        proof (intro exI [of _ "OpenData d # map LoadSource (filters a @ tests a)
                            @ OpenTemplate (template a) # rest"] conjI impI)
          show "trace st' = trace st @ OpenData d # map LoadSource (filters a @ tests a)
                            @ OpenTemplate (template a) # rest"
            using rest(1) .
          show "\<exists>d' context st1 r0 ps fs st2 ts st3 rest'.
                    data a = Some d'
                  \<and> read_context w a st = (Inr context, st1)
                  \<and> Jinja2TemplateRenderer_init w c (undefined_flag a) CP1252 (default_env_params st1)
                      = (r0, ps)
                  \<and> load_all w (filters a) (st1\<lparr>default_env_params := ps\<rparr>) = (Inr fs, st2)
                  \<and> load_all w (tests a) st2 = (Inr ts, st3)
                  \<and> trace st3 = trace st @ OpenData d' # map LoadSource (filters a @ tests a)
                  \<and> (res, st') =
                      (case render w
                              (r0\<lparr>env := (env r0)
                                    \<lparr>env_filters := foldl (++) (default_filters w) fs,
                                     env_tests := foldl (++) (default_tests w) ts\<rparr>\<rparr>)
                              (template a) context st3 of
                         (Inl e, s) \<Rightarrow> (Inl e, s)
                       | (Inr result, s) \<Rightarrow> write_result w a result s)
                  \<and> OpenData d # map LoadSource (filters a @ tests a)
                            @ OpenTemplate (template a) # rest
                      = OpenData d' # map LoadSource (filters a @ tests a)
                            @ OpenTemplate (template a) # rest'
                  \<and> (rest' = [] \<or> (\<exists>p. rest' = [OpenOutput p]))"
            using facts cont rest(2) by blast
        qed
      qed
    qed
  qed
  from first second show ?thesis by blast
qed

theorem data_and_extensions_before_template_witness:
  "parse_args demo_world [''t.j2'', ''missing.yml''] = Some (args0\<lparr>data := Some ''missing.yml''\<rparr>)
   \<and> files (process_start (demo_files [] [])) (abspath demo_world ''missing.yml'') = None
   \<and> render_command demo_world ''/work'' [] [''t.j2'', ''missing.yml''] (process_start (demo_files [] []))
       = (Inl (OSError FileNotFoundError ''missing.yml''),
          log (OpenData ''missing.yml'') (process_start (demo_files [] [])))
   \<and> trace (snd (render_command demo_world ''/work'' []
         [''t.j2'', ''d.yml'', ''--filters'', ''ext.py'', ''--tests'', ''ext2.py'']
         (process_start (demo_files (bytes_of ''Hello {{ name }}!\<newline>'') (bytes_of ''name: World'')))))
       = [OpenData ''d.yml'', LoadSource ''ext.py'', LoadSource ''ext2.py'', OpenTemplate ''t.j2'']
   \<and> (\<exists>r s. render_command demo_world ''/work'' []
         [''t.j2'', ''d.yml'', ''--filters'', ''ext.py'', ''--tests'', ''ext2.py'']
         (process_start (demo_files (bytes_of ''Hello {{ name }}!\<newline>'') (bytes_of ''name: World'')))
        = (case render demo_world r ''t.j2'' (VMap [(ustr_of ''name'', VStr (ustr_of ''World''))]) s of
             (Inl e, s') \<Rightarrow> (Inl e, s')
           | (Inr result, s') \<Rightarrow>
               write_result demo_world (args0\<lparr>filters := [''ext.py''], tests := [''ext2.py'']\<rparr>) result s')
        \<and> env_filters (env r) ''shout'' = Some (PyFunction ''shout'' ''imported-funcs'')
        \<and> env_tests (env r) ''is_big'' = Some (PyFunction ''is_big'' ''imported-funcs''))"
proof -
  let ?s0 = "process_start (demo_files [] [])"
  let ?s1 = "process_start (demo_files (bytes_of ''Hello {{ name }}!\<newline>'') (bytes_of ''name: World''))"
  let ?full = "[''t.j2'', ''d.yml'', ''--filters'', ''ext.py'', ''--tests'', ''ext2.py'']"
  let ?a2 = "args0\<lparr>filters := [''ext.py''], tests := [''ext2.py'']\<rparr>"
  let ?cx = "VMap [(ustr_of ''name'', VStr (ustr_of ''World''))]"
  have pa: "parse_args demo_world [''t.j2'', ''missing.yml''] = Some (args0\<lparr>data := Some ''missing.yml''\<rparr>)"
    by (simp add: demo_world_def demo_parse_args_def)
  have absent: "files ?s0 (abspath demo_world ''missing.yml'') = None"
    by (simp add: process_start_def demo_files_def abspath_def os_path_join_def demo_world_def)
  obtain r1 t1 where run: "render_command demo_world ''/work'' [] [''t.j2'', ''missing.yml''] ?s0 = (r1, t1)"
    by (cases "render_command demo_world ''/work'' [] [''t.j2'', ''missing.yml''] ?s0")
  have d1: "data (args0\<lparr>data := Some ''missing.yml''\<rparr>) = Some ''missing.yml''" by simp
  from data_and_extensions_before_template [OF pa run] d1 absent
  have "r1 = Inl (OSError FileNotFoundError ''missing.yml'') \<and> t1 = log (OpenData ''missing.yml'') ?s0"
    by blast
  with run have one: "render_command demo_world ''/work'' [] [''t.j2'', ''missing.yml''] ?s0
      = (Inl (OSError FileNotFoundError ''missing.yml''), log (OpenData ''missing.yml'') ?s0)"
    by simp
  have pa2: "parse_args demo_world ?full = Some ?a2"
    by (simp add: demo_world_def demo_parse_args_def)
  have tr: "trace (snd (render_command demo_world ''/work'' [] ?full ?s1))
      = [OpenData ''d.yml'', LoadSource ''ext.py'', LoadSource ''ext2.py'', OpenTemplate ''t.j2'']"
    by (simp add: codec_defs io_defs prog_defs engine_defs demo_defs Let_def)
  obtain r2 t2 where run2: "render_command demo_world ''/work'' [] ?full ?s1 = (r2, t2)"
    by (cases "render_command demo_world ''/work'' [] ?full ?s1")
  from data_and_extensions_before_template [OF pa2 run2] obtain new where
    new: "trace t2 = trace ?s1 @ new"
    and after: "(\<exists>t. OpenTemplate t \<in> set new) \<longrightarrow>
       (\<exists>d context st1 r0 ps fs st2 ts st3 rest.
            data ?a2 = Some d
          \<and> read_context demo_world ?a2 ?s1 = (Inr context, st1)
          \<and> Jinja2TemplateRenderer_init demo_world ''/work'' (undefined_flag ?a2) CP1252 (default_env_params st1)
              = (r0, ps)
          \<and> load_all demo_world (filters ?a2) (st1\<lparr>default_env_params := ps\<rparr>) = (Inr fs, st2)
          \<and> load_all demo_world (tests ?a2) st2 = (Inr ts, st3)
          \<and> trace st3 = trace ?s1 @ OpenData d # map LoadSource (filters ?a2 @ tests ?a2)
          \<and> (r2, t2) =
              (case render demo_world
                      (r0\<lparr>env := (env r0)
                            \<lparr>env_filters := foldl (++) (default_filters demo_world) fs,
                             env_tests := foldl (++) (default_tests demo_world) ts\<rparr>\<rparr>)
                      (template ?a2) context st3 of
                 (Inl e, s) \<Rightarrow> (Inl e, s)
               | (Inr result, s) \<Rightarrow> write_result demo_world ?a2 result s)
          \<and> new = OpenData d # map LoadSource (filters ?a2 @ tests ?a2)
                    @ OpenTemplate (template ?a2) # rest
          \<and> (rest = [] \<or> (\<exists>p. rest = [OpenOutput p])))"
    by blast
  from new tr run2 have "new = [OpenData ''d.yml'', LoadSource ''ext.py'', LoadSource ''ext2.py'', OpenTemplate ''t.j2'']"
    by (simp add: process_start_def)
  with after obtain cx0 st1 r0 ps fs st2 ts st3 where
    rc: "read_context demo_world ?a2 ?s1 = (Inr cx0, st1)"
    and lf: "load_all demo_world (filters ?a2) (st1\<lparr>default_env_params := ps\<rparr>) = (Inr fs, st2)"
    and lt: "load_all demo_world (tests ?a2) st2 = (Inr ts, st3)"
    and cont: "(r2, t2) =
        (case render demo_world
                (r0\<lparr>env := (env r0)
                      \<lparr>env_filters := foldl (++) (default_filters demo_world) fs,
                       env_tests := foldl (++) (default_tests demo_world) ts\<rparr>\<rparr>)
                (template ?a2) cx0 st3 of
           (Inl e, s) \<Rightarrow> (Inl e, s)
         | (Inr result, s) \<Rightarrow> write_result demo_world ?a2 result s)"
    by auto
  have rc': "read_context demo_world ?a2 ?s1 = (Inr ?cx, log (OpenData ''d.yml'') ?s1)"
    by (simp add: read_context_def open_read_text_def codec_defs demo_defs process_start_def
        abspath_def os_path_join_def Let_def log_fields)
  with rc have cx: "cx0 = ?cx" and st1: "st1 = log (OpenData ''d.yml'') ?s1" by simp_all
  have lf': "fst (load_all demo_world [''ext.py''] ((log (OpenData ''d.yml'') ?s1)\<lparr>default_env_params := ps\<rparr>))
      = Inr [function_members ext_py_bindings]"
    by (simp add: import_functions_def imp_load_source_def log_def process_start_def demo_files_def
        abspath_def os_path_join_def demo_world_def demo_exec_def Let_def)
  with lf st1 have fs: "fs = [function_members ext_py_bindings]"
    by (simp add: args0_def)
  have lf'': "sys_modules (snd (load_all demo_world [''ext.py''] ((log (OpenData ''d.yml'') ?s1)\<lparr>default_env_params := ps\<rparr>))) ''imported-funcs''
      = Some ext_py_bindings
      \<and> files (snd (load_all demo_world [''ext.py''] ((log (OpenData ''d.yml'') ?s1)\<lparr>default_env_params := ps\<rparr>))) ''/work/ext2.py''
      = Some (Regular ext2_py)"
    by (simp add: import_functions_def imp_load_source_def log_def process_start_def demo_files_def
        abspath_def os_path_join_def demo_world_def demo_exec_def Let_def)
  from lf st1 have st2: "st2 = snd (load_all demo_world [''ext.py''] ((log (OpenData ''d.yml'') ?s1)\<lparr>default_env_params := ps\<rparr>))"
    by (simp add: args0_def)
  from lf'' st2 have m2: "sys_modules st2 ''imported-funcs'' = Some ext_py_bindings"
    and f2: "files st2 ''/work/ext2.py'' = Some (Regular ext2_py)"
    by simp_all
  have "fst (load_all demo_world [''ext2.py''] st2)
      = Inr [function_members (ext_py_bindings ++ map_of [(''is_big'', PyFunction ''is_big'' ''imported-funcs'')])]"
    using m2 f2
    by (simp add: import_functions_def imp_load_source_def log_fields
        abspath_def os_path_join_def demo_world_def demo_exec_def ext_py_def ext2_py_def bytes_of_def Let_def)
  with lt have ts: "ts = [function_members (ext_py_bindings ++ map_of [(''is_big'', PyFunction ''is_big'' ''imported-funcs'')])]"
    by (simp add: args0_def)
  let ?r = "r0\<lparr>env := (env r0)
                      \<lparr>env_filters := foldl (++) (default_filters demo_world) fs,
                       env_tests := foldl (++) (default_tests demo_world) ts\<rparr>\<rparr>"
  have shout: "env_filters (env ?r) ''shout'' = Some (PyFunction ''shout'' ''imported-funcs'')"
    by (simp add: fs demo_world_def function_members_def ext_py_bindings_def)
  have is_big: "env_tests (env ?r) ''is_big'' = Some (PyFunction ''is_big'' ''imported-funcs'')"
    by (simp add: ts demo_world_def function_members_def ext_py_bindings_def)
  from cont run2 cx have "render_command demo_world ''/work'' [] ?full ?s1
        = (case render demo_world ?r ''t.j2'' ?cx st3 of
             (Inl e, s') \<Rightarrow> (Inl e, s')
           | (Inr result, s') \<Rightarrow> write_result demo_world ?a2 result s')"
    by (simp add: args0_def)
  with shout is_big have two: "\<exists>r s. render_command demo_world ''/work'' [] ?full ?s1
        = (case render demo_world r ''t.j2'' ?cx s of
             (Inl e, s') \<Rightarrow> (Inl e, s')
           | (Inr result, s') \<Rightarrow> write_result demo_world ?a2 result s')
        \<and> env_filters (env r) ''shout'' = Some (PyFunction ''shout'' ''imported-funcs'')
        \<and> env_tests (env r) ''is_big'' = Some (PyFunction ''is_big'' ''imported-funcs'')"
    by blast
  from pa absent one tr two show ?thesis by blast
qed

text \<open>
  C4 as stated fails: the mapping holds every function that is an attribute of the loaded
  module, also one the file only imported. After \<^verbatim>\<open>from os.path import join\<close> the function
  \<^verbatim>\<open>join\<close> of the module \<^verbatim>\<open>posixpath\<close> is in the mapping, although the file does not define
  it; the class \<^verbatim>\<open>K\<close>, which the file does define, is not.
\<close>

theorem import_functions_includes_imported:
  "(case fst (import_functions demo_world ''ext.py'' (process_start (demo_files [] []))) of
      Inl e \<Rightarrow> False
    | Inr m \<Rightarrow> m ''join'' = Some (PyFunction ''join'' ''posixpath'') \<and> m ''K'' = None)
   \<and> fn_module (PyFunction ''join'' ''posixpath'') \<noteq> ''imported-funcs''"
  by (simp add: codec_defs io_defs prog_defs engine_defs demo_defs Let_def)

text \<open>
  C4, amended. On the first load of an extension file in a process the loader returns
  exactly the names that the file binds at top level to Python function objects, whether
  defined in the file or imported into it (classes and other callables are left out), each
  under the name it is bound to. \<^verbatim>\<open>import_filters\<close> and \<^verbatim>\<open>import_tests\<close> use this same
  operation; the first merges the mapping into the filter registry and leaves the tests
  alone, the second the other way round.
\<close>

theorem import_functions_first_load:
  assumes fresh: "sys_modules st ''imported-funcs'' = None"
      and readable: "files st (abspath w filename) = Some (Regular src)"
      and bindings: "exec_source w src = Inr bound"
  shows "(\<exists>st'. import_functions w filename st = (Inr (function_members bound), st')
            \<and> import_filters w r filename st = (Inr (register_filters r (function_members bound)), st')
            \<and> import_tests w r filename st = (Inr (register_tests r (function_members bound)), st'))
       \<and> (\<forall>name func. function_members bound name = Some func
              \<longleftrightarrow> bound name = Some func \<and> isfunction func)
       \<and> env_filters (env (register_filters r m)) = env_filters (env r) ++ m
       \<and> env_tests (env (register_filters r m)) = env_tests (env r)
       \<and> env_tests (env (register_tests r m)) = env_tests (env r) ++ m
       \<and> env_filters (env (register_tests r m)) = env_filters (env r)"
proof -
  have load: "imp_load_source w ''imported-funcs'' filename st
      = (Inr bound, (log (LoadSource filename) st)
           \<lparr>sys_modules := (sys_modules st)(''imported-funcs'' \<mapsto> bound)\<rparr>)"
    using assms by (simp add: imp_load_source_def log_def Let_def)
  have members: "function_members bound name = Some func
      \<longleftrightarrow> bound name = Some func \<and> isfunction func" for name func
    by (auto simp: function_members_def split: option.splits)
  from load members show ?thesis
    by (simp add: import_functions_def import_filters_def import_tests_def
        register_filters_def register_tests_def)
qed

theorem import_functions_first_load_witness:
  "sys_modules (process_start (demo_files [] [])) ''imported-funcs'' = None
   \<and> files (process_start (demo_files [] [])) (abspath demo_world ''ext.py'') = Some (Regular ext_py)
   \<and> exec_source demo_world ext_py = Inr ext_py_bindings
   \<and> fst (import_functions demo_world ''ext.py'' (process_start (demo_files [] [])))
      = Inr (function_members ext_py_bindings)
   \<and> function_members ext_py_bindings ''shout'' = Some (PyFunction ''shout'' ''imported-funcs'')
   \<and> function_members ext_py_bindings ''K'' = None"
proof -
  have a: "sys_modules (process_start (demo_files [] [])) ''imported-funcs'' = None"
    by (simp add: process_start_def)
  have b: "files (process_start (demo_files [] [])) (abspath demo_world ''ext.py'') = Some (Regular ext_py)"
    by (simp add: process_start_def demo_files_def abspath_def os_path_join_def demo_world_def)
  have c: "exec_source demo_world ext_py = Inr ext_py_bindings"
    by (simp add: demo_world_def demo_exec_def)
  note t = import_functions_first_load [OF a b c]
  from t obtain st' where
    "import_functions demo_world ''ext.py'' (process_start (demo_files [] []))
       = (Inr (function_members ext_py_bindings), st')"
    by blast
  then have d: "fst (import_functions demo_world ''ext.py'' (process_start (demo_files [] [])))
      = Inr (function_members ext_py_bindings)"
    by simp
  from t have m: "function_members ext_py_bindings name = Some func
      \<longleftrightarrow> ext_py_bindings name = Some func \<and> isfunction func" for name func
    by blast
  have e: "function_members ext_py_bindings ''shout'' = Some (PyFunction ''shout'' ''imported-funcs'')"
    by (subst m) (simp add: ext_py_bindings_def)
  have "function_members ext_py_bindings ''K'' \<noteq> Some func" for func
    by (subst m) (auto simp: ext_py_bindings_def)
  then have f: "function_members ext_py_bindings ''K'' = None"
    by (cases "function_members ext_py_bindings ''K''") auto
  from a b c d e f show ?thesis by simp
qed

text \<open>
  A later load in the same process runs inside the module the first load created, so its
  mapping also holds the functions of the files loaded before.
\<close>

lemma second_load_keeps_first:
  "(case import_functions demo_world ''ext.py'' (process_start (demo_files [] [])) of
      (r1, st1) \<Rightarrow>
        (case fst (import_functions demo_world ''ext2.py'' st1) of
           Inl e \<Rightarrow> False
         | Inr m \<Rightarrow> m ''is_big'' = Some (PyFunction ''is_big'' ''imported-funcs'')
                  \<and> m ''shout'' = Some (PyFunction ''shout'' ''imported-funcs'')))"
  by (simp add: codec_defs io_defs prog_defs demo_defs Let_def)

text \<open>
  C3 says that the loader reads the file that the template name denotes relative to the
  configured working directory. The code computes that path as \<^verbatim>\<open>filename\<close> but opens
  \<^verbatim>\<open>template\<close>, which the operating system resolves against the working directory of the
  process. With the configured directory \<^verbatim>\<open>/srv/templates\<close> holding \<^verbatim>\<open>t.j2\<close> and the process
  running in \<^verbatim>\<open>/work\<close>, the template is reported as not found.
\<close>

theorem loader_ignores_configured_directory:
  "fst (render_command demo_world ''/srv/templates'' [] [''t.j2'', ''d.yml''] (process_start srv_files))
     = Inl (TemplateNotFound ''t.j2'')
   \<and> srv_files (os_path_join ''/srv/templates'' ''t.j2'') = Some (Regular (bytes_of ''Hello {{ name }}!\<newline>''))
   \<and> fst (get_source demo_world (FilePathLoader_init ''/srv/templates'' UTF8) ''t.j2'' (process_start srv_files))
     = Inl (TemplateNotFound ''t.j2'')"
  by (simp add: codec_defs io_defs prog_defs engine_defs demo_defs srv_files_def)

text \<open>
  C2 says that the data file is read as UTF-8 while the output is encoded with a separate
  encoding, Windows-1252. The output encoding is indeed fixed on its own, but the data
  file is opened without an encoding argument, so it is decoded with the preferred
  encoding of the platform. The same files and command line give different output under
  a Windows-1252 locale and under a UTF-8 locale: the two bytes that are \<^verbatim>\<open>U+00E9\<close> in
  UTF-8 are read as the two characters \<^verbatim>\<open>U+00C3 U+00A9\<close>.
\<close>

theorem data_file_read_in_platform_encoding:
  "fst (main cp1252_world [] [''t.j2'', ''d.yml'']
         (demo_files (bytes_of ''Hello {{ name }}!\<newline>'') (bytes_of ''name: '' @ [0xC3, 0xA9])))
     = Stdout (bytes_of ''Hello '' @ [0xC3, 0xA9] @ bytes_of ''!\<newline>'')
   \<and> fst (main demo_world [] [''t.j2'', ''d.yml'']
         (demo_files (bytes_of ''Hello {{ name }}!\<newline>'') (bytes_of ''name: '' @ [0xC3, 0xA9])))
     = Stdout (bytes_of ''Hello '' @ [0xE9] @ bytes_of ''!\<newline>'')
   \<and> fst (read_context cp1252_world args0
         (process_start (demo_files [] (bytes_of ''name: '' @ [0xC3, 0xA9]))))
     = Inr (VMap [(ustr_of ''name'', VStr [0xC3, 0xA9])])
   \<and> decode UTF8 (bytes_of ''name: '' @ [0xC3, 0xA9]) = Inr (ustr_of ''name: '' @ [0xE9])"
  by (simp add: codec_defs io_defs prog_defs engine_defs demo_defs)

text \<open>
  C7 says that with \<^verbatim>\<open>-o\<close> a successful render is written to the file as UTF-8 text and
  nothing goes to standard output, and that without \<^verbatim>\<open>-o\<close> the encoded bytes go to
  standard output. Take a template that renders to \<^verbatim>\<open>Caf\<close>, \<^verbatim>\<open>U+00E9\<close> and a newline.
  Rendering succeeds (without \<^verbatim>\<open>-o\<close> the Windows-1252 bytes reach standard output), but
  with \<^verbatim>\<open>-o\<close> the output file is left empty and the process ends with
  \<^verbatim>\<open>UnicodeDecodeError\<close>, because the Windows-1252 bytes are decoded as UTF-8.
\<close>

theorem output_file_decode_failure:
  "fst (main demo_world [] [''-o'', ''out.txt'', ''t.j2'', ''d.yml'']
          (demo_files (bytes_of ''Caf'' @ [0xC3, 0xA9, 0x0A]) (bytes_of ''{}'')))
     = Uncaught (UnicodeDecodeError UTF8)
   \<and> files (snd (main demo_world [] [''-o'', ''out.txt'', ''t.j2'', ''d.yml'']
          (demo_files (bytes_of ''Caf'' @ [0xC3, 0xA9, 0x0A]) (bytes_of ''{}'')))) ''/work/out.txt''
     = Some (Regular [])
   \<and> fst (main demo_world [] [''t.j2'', ''d.yml'']
          (demo_files (bytes_of ''Caf'' @ [0xC3, 0xA9, 0x0A]) (bytes_of ''{}'')))
     = Stdout (bytes_of ''Caf'' @ [0xE9, 0x0A])"
  by (simp add: codec_defs io_defs prog_defs engine_defs demo_defs)

text \<open>
  C10 says that with \<^verbatim>\<open>-o\<close> a rendered string of ASCII characters reaches the file
  unchanged and that any rendered string with a character whose Windows-1252 byte is not
  valid UTF-8 makes the \<^verbatim>\<open>-o\<close> path raise a decoding error. The template below renders to
  the two characters \<^verbatim>\<open>U+00C3 U+00A9\<close> (without \<^verbatim>\<open>-o\<close> their bytes \<^verbatim>\<open>C3 A9\<close> reach standard
  output). With \<^verbatim>\<open>-o\<close> these bytes are decoded as UTF-8, which succeeds: no error is raised
  and the output file receives the single character \<^verbatim>\<open>U+00E9\<close>, not the rendered text.
\<close>

theorem output_file_mojibake_decodes:
  "fst (main demo_world [] [''-o'', ''out.txt'', ''t.j2'', ''d.yml'']
          (demo_files [0xC3, 0x83, 0xC2, 0xA9] (bytes_of ''{}'')))
     = Stdout []
   \<and> files (snd (main demo_world [] [''-o'', ''out.txt'', ''t.j2'', ''d.yml'']
          (demo_files [0xC3, 0x83, 0xC2, 0xA9] (bytes_of ''{}'')))) ''/work/out.txt''
     = Some (Regular [0xC3, 0xA9])
   \<and> fst (main demo_world [] [''t.j2'', ''d.yml'']
          (demo_files [0xC3, 0x83, 0xC2, 0xA9] (bytes_of ''{}'')))
     = Stdout [0xC3, 0xA9]
   \<and> decode UTF8 [0xC3, 0x83, 0xC2, 0xA9] = Inr [0xC3, 0xA9]
   \<and> decode UTF8 [0xC3, 0xA9] = Inr [0xE9]"
  by (simp add: codec_defs io_defs prog_defs engine_defs demo_defs)

text \<open>
  C1, against the engine of the specification. In a run from a fresh process state in
  which the context is a mapping, the extension files load and the template scans into
  segments, let the template refer to a key \<open>n\<close> that the context lacks. With \<^verbatim>\<open>--undefined\<close>
  the engine succeeds with the text in which every such reference is replaced by the empty
  text, and the run goes on to encode and deliver that text; without the flag the run
  fails with \<^verbatim>\<open>UndefinedError\<close> for a missing key of the template.
\<close>

theorem undefined_policy_follows_flag:
  assumes eng: "template_engine w = spec_engine str"
      and pa: "parse_args w argv = Some a"
      and fresh: "default_env_params st = no_params"
      and ctx: "read_context w a st = (Inr (VMap vars), st1)"
      and init: "Jinja2TemplateRenderer_init w c (undefined_flag a) CP1252 no_params = (r0, ps)"
      and fl: "import_each (import_filters w) r0 (filters a) (st1\<lparr>default_env_params := ps\<rparr>) = (Inr r2, st2)"
      and ts: "import_each (import_tests w) r2 (tests a) st2 = (Inr r3, st3)"
      and tpl: "files st (abspath w (template a)) = Some (Regular bs)"
      and dec: "decode UTF8 bs = Inr raw"
      and lx: "lex False [] (universal_newlines raw) = Inr segs"
      and ref: "Var n \<in> set segs" "map_of vars n = None"
  shows "fill str vars (Var n) = []
       \<and> (undefined_flag a \<longrightarrow>
            template_engine w (env r3) (universal_newlines raw) (VMap vars)
              = Inr (concat (map (fill str vars) segs))
            \<and> render_command w c stdin argv st =
                (case encode CP1252 (concat (map (fill str vars) segs)) of
                   Inl e \<Rightarrow> (Inl e, log (OpenTemplate (template a)) st3)
                 | Inr out \<Rightarrow> write_result w a out (log (OpenTemplate (template a)) st3)))
       \<and> (\<not> undefined_flag a \<longrightarrow>
            (\<exists>m. Var m \<in> set segs \<and> map_of vars m = None
               \<and> render_command w c stdin argv st
                   = (Inl (UndefinedError m), log (OpenTemplate (template a)) st3)))"
proof -
  let ?pol = "if undefined_flag a then Undefined else StrictUndefined"
  let ?l = "\<lparr>cwd = c, loader_encoding = UTF8\<rparr>"
  from read_context_state [OF ctx] obtain d where st1: "st1 = log (OpenData d) st"
    by auto
  have dp1: "default_env_params st1 = no_params" and f1: "files st1 = files st"
    using st1 fresh by (simp_all add: log_fields)
  from init init_cfg [of w c "undefined_flag a" CP1252]
  have c0: "cfg_of r0 = (CP1252, True, ?pol, Some ?l)" by simp
  from import_each_filters [OF fl] have c2: "cfg_of r2 = cfg_of r0" and f2: "files st2 = files st1"
    by simp_all
  from import_each_tests [OF ts] have c3: "cfg_of r3 = cfg_of r2" and f3: "files st3 = files st2"
    by simp_all
  from c0 c2 c3 have cfg: "cfg_of r3 = (CP1252, True, ?pol, Some ?l)" by simp
  from tpl f1 f2 f3 have readable: "files st3 (abspath w (template a)) = Some (Regular bs)" by simp
  have dec': "decode (loader_encoding ?l) bs = Inr raw" using dec by simp
  note rn = render_spec_engine [OF eng cfg readable dec' lx, of vars]
  have rc: "render_command w c stdin argv st =
      (case render w r3 (template a) (VMap vars) st3 of
         (Inl e, st4) \<Rightarrow> (Inl e, st4)
       | (Inr result, st4) \<Rightarrow> write_result w a result st4)"
    using pa ctx dp1 init fl ts by (simp add: render_command_def)
  have engine: "template_engine w (env r3) (universal_newlines raw) (VMap vars)
      = exec_segs str ?pol vars segs"
    using eng cfg lx by (simp add: spec_engine_def cfg_of_def)
  have empty: "fill str vars (Var n) = []"
    using ref(2) by (simp add: fill_def)
  have permissive: "template_engine w (env r3) (universal_newlines raw) (VMap vars)
              = Inr (concat (map (fill str vars) segs))
            \<and> render_command w c stdin argv st =
                (case encode CP1252 (concat (map (fill str vars) segs)) of
                   Inl e \<Rightarrow> (Inl e, log (OpenTemplate (template a)) st3)
                 | Inr out \<Rightarrow> write_result w a out (log (OpenTemplate (template a)) st3))"
    if "undefined_flag a"
    using that engine rc rn by (simp add: exec_segs_permissive split: sum.splits)
  have strict: "\<exists>m. Var m \<in> set segs \<and> map_of vars m = None
               \<and> render_command w c stdin argv st
                   = (Inl (UndefinedError m), log (OpenTemplate (template a)) st3)"
    if "\<not> undefined_flag a"
  proof -
    from exec_segs_strict_missing [OF ref, of str] obtain m where
      m: "Var m \<in> set segs" "map_of vars m = None"
      "exec_segs str StrictUndefined vars segs = Inl (UndefinedError m)"
      by blast
    with that rc rn show ?thesis by auto
  qed
  from empty permissive strict show ?thesis by blast
qed

theorem undefined_policy_follows_flag_witness:
  "template_engine demo_world = spec_engine str_of_scalar
   \<and> parse_args demo_world [''--undefined'', ''t.j2'', ''d.yml''] = Some (args0\<lparr>undefined_flag := True\<rparr>)
   \<and> parse_args demo_world [''t.j2'', ''d.yml''] = Some args0
   \<and> lex False [] (ustr_of ''Hello {{ name }}!\<newline>'')
       = Inr [Text (ustr_of ''Hello ''), Var (ustr_of ''name''), Text (ustr_of ''!\<newline>'')]
   \<and> map_of [] (ustr_of ''name'') = (None :: pyval option)
   \<and> fst (render_command demo_world ''/work'' [] [''--undefined'', ''t.j2'', ''d.yml'']
        (process_start (demo_files (bytes_of ''Hello {{ name }}!\<newline>'') (bytes_of ''{}''))))
      = Inr (bytes_of ''Hello !\<newline>'')
   \<and> fst (render_command demo_world ''/work'' [] [''t.j2'', ''d.yml'']
        (process_start (demo_files (bytes_of ''Hello {{ name }}!\<newline>'') (bytes_of ''{}''))))
      = Inl (UndefinedError (ustr_of ''name''))"
proof -
  let ?st = "process_start (demo_files (bytes_of ''Hello {{ name }}!\<newline>'') (bytes_of ''{}''))"
  let ?st1 = "log (OpenData ''d.yml'') ?st"
  let ?segs = "[Text (ustr_of ''Hello ''), Var (ustr_of ''name''), Text (ustr_of ''!\<newline>'')]"
  let ?raw = "ustr_of ''Hello {{ name }}!\<newline>''"
  have eng: "template_engine demo_world = spec_engine str_of_scalar"
    by (simp add: demo_world_def)
  have fresh: "default_env_params ?st = no_params" by (simp add: process_start_def)
  have tpl: "files ?st (abspath demo_world ''t.j2'') = Some (Regular (bytes_of ''Hello {{ name }}!\<newline>''))"
    by (simp add: process_start_def demo_files_def abspath_def os_path_join_def demo_world_def)
  have dec: "decode UTF8 (bytes_of ''Hello {{ name }}!\<newline>'') = Inr ?raw"
    by (simp add: codec_defs ustr_of_def bytes_of_def)
  have un: "universal_newlines ?raw = ?raw" by (simp add: ustr_of_def)
  have lx0: "lex False [] ?raw = Inr ?segs"
    by (simp add: engine_defs ustr_of_def)
  have lx: "lex False [] (universal_newlines ?raw) = Inr ?segs"
    using lx0 un by simp
  have ref: "Var (ustr_of ''name'') \<in> set ?segs" "map_of [] (ustr_of ''name'') = (None :: pyval option)"
    by simp_all
  have filled: "concat (map (fill str_of_scalar []) ?segs) = ustr_of ''Hello !\<newline>''"
    by (simp add: fill_def ustr_of_def)
  have encoded: "encode CP1252 (ustr_of ''Hello !\<newline>'') = Inr (bytes_of ''Hello !\<newline>'')"
    by (simp add: codec_defs ustr_of_def bytes_of_def)
  have permissive: "fst (render_command demo_world ''/work'' [] [''--undefined'', ''t.j2'', ''d.yml''] ?st)
      = Inr (bytes_of ''Hello !\<newline>'')"
  proof -
    let ?a = "args0\<lparr>undefined_flag := True\<rparr>"
    let ?i = "Jinja2TemplateRenderer_init demo_world ''/work'' (undefined_flag ?a) CP1252 no_params"
    have pa: "parse_args demo_world [''--undefined'', ''t.j2'', ''d.yml''] = Some ?a"
      by (simp add: demo_world_def demo_parse_args_def)
    have ctx: "read_context demo_world ?a ?st = (Inr (VMap []), ?st1)"
      by (simp add: read_context_def open_read_text_def codec_defs demo_defs process_start_def
          abspath_def os_path_join_def Let_def log_fields)
    have init: "?i = (fst ?i, snd ?i)" by simp
    have fl: "import_each (import_filters demo_world) (fst ?i) (filters ?a)
        (?st1\<lparr>default_env_params := snd ?i\<rparr>) = (Inr (fst ?i), ?st1\<lparr>default_env_params := snd ?i\<rparr>)"
      by (simp add: args0_def)
    have ts: "import_each (import_tests demo_world) (fst ?i) (tests ?a)
        (?st1\<lparr>default_env_params := snd ?i\<rparr>) = (Inr (fst ?i), ?st1\<lparr>default_env_params := snd ?i\<rparr>)"
      by (simp add: args0_def)
    have tpl': "files ?st (abspath demo_world (template ?a)) = Some (Regular (bytes_of ''Hello {{ name }}!\<newline>''))"
      using tpl by (simp add: args0_def)
    have flag: "undefined_flag ?a" by simp
    have none: "output_file ?a = None" by (simp add: args0_def)
    from undefined_policy_follows_flag [where stdin = "[]", OF eng pa fresh ctx init fl ts tpl' dec lx ref] flag
    have "render_command demo_world ''/work'' [] [''--undefined'', ''t.j2'', ''d.yml''] ?st =
        (case encode CP1252 (concat (map (fill str_of_scalar []) ?segs)) of
           Inl e \<Rightarrow> (Inl e, log (OpenTemplate (template ?a)) (?st1\<lparr>default_env_params := snd ?i\<rparr>))
         | Inr out \<Rightarrow> write_result demo_world ?a out
              (log (OpenTemplate (template ?a)) (?st1\<lparr>default_env_params := snd ?i\<rparr>)))"
      by blast
    then show ?thesis
      by (simp only: filled encoded sum.case write_result_def none option.case fst_conv)
  qed
  have strict: "fst (render_command demo_world ''/work'' [] [''t.j2'', ''d.yml''] ?st)
      = Inl (UndefinedError (ustr_of ''name''))"
  proof -
    let ?i = "Jinja2TemplateRenderer_init demo_world ''/work'' (undefined_flag args0) CP1252 no_params"
    have pa: "parse_args demo_world [''t.j2'', ''d.yml''] = Some args0"
      by (simp add: demo_world_def demo_parse_args_def)
    have ctx: "read_context demo_world args0 ?st = (Inr (VMap []), ?st1)"
      by (simp add: read_context_def open_read_text_def codec_defs demo_defs process_start_def
          abspath_def os_path_join_def Let_def log_fields)
    have init: "?i = (fst ?i, snd ?i)" by simp
    have fl: "import_each (import_filters demo_world) (fst ?i) (filters args0)
        (?st1\<lparr>default_env_params := snd ?i\<rparr>) = (Inr (fst ?i), ?st1\<lparr>default_env_params := snd ?i\<rparr>)"
      by (simp add: args0_def)
    have ts: "import_each (import_tests demo_world) (fst ?i) (tests args0)
        (?st1\<lparr>default_env_params := snd ?i\<rparr>) = (Inr (fst ?i), ?st1\<lparr>default_env_params := snd ?i\<rparr>)"
      by (simp add: args0_def)
    have tpl': "files ?st (abspath demo_world (template args0)) = Some (Regular (bytes_of ''Hello {{ name }}!\<newline>''))"
      using tpl by (simp add: args0_def)
    have flag: "\<not> undefined_flag args0" by (simp add: args0_def)
    from undefined_policy_follows_flag [where stdin = "[]", OF eng pa fresh ctx init fl ts tpl' dec lx ref] flag
    obtain m where "Var m \<in> set ?segs"
      and "fst (render_command demo_world ''/work'' [] [''t.j2'', ''d.yml''] ?st) = Inl (UndefinedError m)"
      by auto
    then show ?thesis by simp
  qed
  have pa1: "parse_args demo_world [''--undefined'', ''t.j2'', ''d.yml''] = Some (args0\<lparr>undefined_flag := True\<rparr>)"
    and pa2: "parse_args demo_world [''t.j2'', ''d.yml''] = Some args0"
    by (simp_all add: demo_world_def demo_parse_args_def)
  from eng pa1 pa2 lx0 ref(2) permissive strict show ?thesis by simp
qed

text \<open>
  The fresh process state matters. The renderer is built on the shared default dictionary,
  and \<^verbatim>\<open>setdefault\<close> keeps a key that is present: a second renderer built in the same
  process inherits the policy (and the loader) of the first, whatever its own flag says.
\<close>

lemma second_renderer_keeps_first_policy:
  "undefined_cls (env (fst (Jinja2TemplateRenderer_init w c' False enc
      (snd (Jinja2TemplateRenderer_init w c True enc no_params))))) = Undefined"
  by (simp add: Jinja2TemplateRenderer_init_def Environment_def setdefault_def no_params_def)

text \<open>
  C6 as stated fails: a template without a trailing newline can produce output with one.
  The template \<^verbatim>\<open>{{ x }}\<close> rendered against a value of \<open>x\<close> that ends in a newline gives
  output that ends in a newline.
\<close>

theorem trailing_newline_from_value:
  "fst (main demo_world [] [''t.j2'', ''d.yml'']
          (demo_files (bytes_of ''{{ x }}'') (bytes_of ''x: |\<newline>  a\<newline>'')))
     = Stdout [0x61, 0x0A]
   \<and> last (bytes_of ''{{ x }}'') \<noteq> 0x0A"
  by (simp add: codec_defs io_defs prog_defs engine_defs demo_defs)

text \<open>
  C6, amended, against the engine of the specification. A renderer configured as
  \<^verbatim>\<open>render_command\<close> configures it keeps the trailing newline. Every successful render
  falls under one of three cases. A template that ends in literal text (its last segment
  is not a substitution) gives output that ends with a newline exactly when the template
  source does: with a trailing newline in the template the final character of the output
  is a newline, without one it is not. A template that ends with a substitution gives
  output that ends with the text of the substituted value, which may be empty. The empty
  template gives empty output.
\<close>

theorem trailing_character_preserved:
  assumes eng: "template_engine w = spec_engine str"
      and cfg: "cfg_of r = cfg_of (fst (Jinja2TemplateRenderer_init w c allow_undefined CP1252 no_params))"
      and src: "get_template w (env r) t st = (Inr source, st')"
      and ok: "fst (render w r t ctx st) = Inr out"
  shows "\<exists>segs vars. lex False [] source = Inr segs \<and> ctx = VMap vars
       \<and> (segs = [] \<longrightarrow> source = [] \<and> out = [])
       \<and> (\<forall>lit. segs \<noteq> [] \<and> last segs = Text lit \<longrightarrow>
             source \<noteq> [] \<and> out \<noteq> [] \<and> (last out = 0x0A \<longleftrightarrow> last source = 10))
       \<and> (\<forall>n. segs \<noteq> [] \<and> last segs = Var n \<longrightarrow>
             (\<exists>o1 o2. out = o1 @ o2 \<and> encode CP1252 (fill str vars (Var n)) = Inr o2))"
proof -
  from cfg init_cfg [of w c allow_undefined CP1252]
  have e: "encoding r = CP1252" and k: "keep_trailing_newline (env r)"
    by (simp_all add: cfg_of_def)
  from ok src e obtain rendered where
    rendered: "spec_engine str (env r) source ctx = Inr rendered"
    and enc: "encode CP1252 rendered = Inr out"
    by (auto simp: render_def eng split: sum.splits)
  from rendered k obtain segs vars where lx: "lex False [] source = Inr segs"
    and cx: "ctx = VMap vars"
    and ex: "exec_segs str (undefined_cls (env r)) vars segs = Inr rendered"
    by (auto simp: spec_engine_def split: sum.splits pyval.splits)
  from enc have enc': "cp1252_encode rendered = Some out"
    by (simp add: encode_def split: option.splits)
  have none: "source = [] \<and> out = []" if "segs = []"
  proof -
    from lx that lex_no_segments [of False "[]" source] have "source = []" by simp
    moreover from ex that have "rendered = []" by simp
    ultimately show ?thesis using enc' by simp
  qed
  have literal: "source \<noteq> [] \<and> out \<noteq> [] \<and> (last out = 0x0A \<longleftrightarrow> last source = 10)"
    if "segs \<noteq> [] \<and> last segs = Text lit" for lit
  proof -
    from that have ne: "segs \<noteq> []" and l: "last segs = Text lit" by simp_all
    from lex_last_text [OF lx ne l] have lit: "lit \<noteq> []"
      and s: "source \<noteq> []" "last lit = last source"
      by (auto split: if_splits)
    from exec_segs_final_text [OF ex ne l] obtain x where "rendered = x @ lit" by blast
    with enc' have "cp1252_encode (x @ lit) = Some out" by simp
    from cp1252_encode_last [OF this lit] s show ?thesis by simp
  qed
  have subst: "\<exists>o1 o2. out = o1 @ o2 \<and> encode CP1252 (fill str vars (Var n)) = Inr o2"
    if "segs \<noteq> [] \<and> last segs = Var n" for n
  proof -
    from that have ne: "segs \<noteq> []" and l: "last segs = Var n" by simp_all
    from exec_segs_final_var [OF ex ne l] obtain x where "rendered = x @ fill str vars (Var n)"
      by blast
    with enc' have "cp1252_encode (x @ fill str vars (Var n)) = Some out" by simp
    from cp1252_encode_append_Some [OF this] show ?thesis
      by (auto simp: encode_def)
  qed
  from lx cx none literal subst show ?thesis by blast
qed

theorem trailing_character_preserved_witness:
  "template_engine demo_world = spec_engine str_of_scalar
   \<and> get_template demo_world (env (fst (Jinja2TemplateRenderer_init demo_world ''/work'' False CP1252 no_params)))
        ''t.j2'' (process_start (demo_files (bytes_of ''Hello {{ name }}!\<newline>'') []))
      = (Inr (ustr_of ''Hello {{ name }}!\<newline>''),
         log (OpenTemplate ''t.j2'') (process_start (demo_files (bytes_of ''Hello {{ name }}!\<newline>'') [])))
   \<and> fst (render demo_world (fst (Jinja2TemplateRenderer_init demo_world ''/work'' False CP1252 no_params))
        ''t.j2'' (VMap [(ustr_of ''name'', VStr (ustr_of ''World''))])
        (process_start (demo_files (bytes_of ''Hello {{ name }}!\<newline>'') [])))
      = Inr (bytes_of ''Hello World!\<newline>'')
   \<and> lex False [] (ustr_of ''Hello {{ name }}!\<newline>'')
      = Inr [Text (ustr_of ''Hello ''), Var (ustr_of ''name''), Text (ustr_of ''!\<newline>'')]
   \<and> last (ustr_of ''Hello {{ name }}!\<newline>'') = 10
   \<and> last (bytes_of ''Hello World!\<newline>'') = 0x0A"
proof -
  let ?r = "fst (Jinja2TemplateRenderer_init demo_world ''/work'' False CP1252 no_params)"
  let ?st = "process_start (demo_files (bytes_of ''Hello {{ name }}!\<newline>'') [])"
  let ?ctx = "VMap [(ustr_of ''name'', VStr (ustr_of ''World''))]"
  let ?segs = "[Text (ustr_of ''Hello ''), Var (ustr_of ''name''), Text (ustr_of ''!\<newline>'')]"
  have eng: "template_engine demo_world = spec_engine str_of_scalar"
    by (simp add: demo_world_def)
  have cfg: "cfg_of ?r = cfg_of (fst (Jinja2TemplateRenderer_init demo_world ''/work'' False CP1252 no_params))"
    by simp
  have src: "get_template demo_world (env ?r) ''t.j2'' ?st
      = (Inr (ustr_of ''Hello {{ name }}!\<newline>''), log (OpenTemplate ''t.j2'') ?st)"
    by (simp add: codec_defs io_defs prog_defs demo_defs Let_def)
  have ok: "fst (render demo_world ?r ''t.j2'' ?ctx ?st) = Inr (bytes_of ''Hello World!\<newline>'')"
    by (simp add: codec_defs io_defs prog_defs engine_defs demo_defs Let_def)
  have lx: "lex False [] (ustr_of ''Hello {{ name }}!\<newline>'') = Inr ?segs"
    by (simp add: engine_defs ustr_of_def)
  have nl: "last (ustr_of ''Hello {{ name }}!\<newline>'') = 10" by (simp add: ustr_of_def)
  from trailing_character_preserved [OF eng cfg src ok] obtain segs where
    "lex False [] (ustr_of ''Hello {{ name }}!\<newline>'') = Inr segs"
    and lit: "\<forall>lit. segs \<noteq> [] \<and> last segs = Text lit \<longrightarrow>
        (last (bytes_of ''Hello World!\<newline>'') = 0x0A
          \<longleftrightarrow> last (ustr_of ''Hello {{ name }}!\<newline>'') = 10)"
    by blast
  with lx have "segs = ?segs" by simp
  with lit nl have "last (bytes_of ''Hello World!\<newline>'') = 0x0A" by simp
  with eng src ok lx nl show ?thesis by simp
qed

end
